theory Spec2Isabelle
  imports Complex_Main "HOL-Library.Sublist" "HOL-Library.Code_Target_Nat"
begin

section \<open>JavaScript strings and truthiness\<close>

text \<open>
  Strings are character lists.  \<open>s.includes(p)\<close> holds when \<open>p\<close> occurs in \<open>s\<close> as a
  contiguous block, \<open>s.startsWith(p)\<close> when \<open>p\<close> is a prefix of \<open>s\<close>.  An optional
  string stands for a value that may be \<open>undefined\<close>; \<open>a || b\<close> yields \<open>a\<close> when
  \<open>a\<close> is truthy (defined and not empty) and \<open>b\<close> otherwise.  \<open>toLowerCase\<close> maps the
  letters A to Z, which covers the ASCII keys it is applied to.
\<close>

fun str_includes :: "string \<Rightarrow> string \<Rightarrow> bool" where
  "str_includes [] p = (p = [])"
| "str_includes (c # cs) p = (prefix p (c # cs) \<or> str_includes cs p)"

definition startsWith :: "string \<Rightarrow> string \<Rightarrow> bool" where
  "startsWith s p = prefix p s"

definition truthy :: "string option \<Rightarrow> bool" where
  "truthy a = (case a of None \<Rightarrow> False | Some s \<Rightarrow> s \<noteq> [])"

definition js_or :: "string option \<Rightarrow> string option \<Rightarrow> string option" where
  "js_or a b = (if truthy a then a else b)"

definition to_lower_char :: "char \<Rightarrow> char" where
  "to_lower_char c =
     (case map_of (zip ''ABCDEFGHIJKLMNOPQRSTUVWXYZ'' ''abcdefghijklmnopqrstuvwxyz'') c of
        None \<Rightarrow> c
      | Some l \<Rightarrow> l)"

definition toLowerCase :: "string \<Rightarrow> string" where
  "toLowerCase s = map to_lower_char s"

definition digit_char :: "nat \<Rightarrow> char" where
  "digit_char n = ''0123456789'' ! (n mod 10)"

function show_nat :: "nat \<Rightarrow> string" where
  \<comment> \<open>decimal rendering of a non-negative integer, as template literals print it\<close>
  "show_nat n = (if n < 10 then [digit_char n] else show_nat (n div 10) @ [digit_char n])"
  by pat_completeness auto
termination
  by (relation "measure id") auto

declare show_nat.simps [simp del]


section \<open>JavaScript numbers\<close>

text \<open>
  A number is an IEEE 754 double: a rational with a significand of 53 bits, an infinity,
  or \<open>NaN\<close>.  An arithmetic operation yields the exact result rounded to the nearest
  double, to the even significand at a tie (\<open>fl\<close>); a result that rounds to \<open>2^1024\<close> or
  beyond is infinite, and below \<open>2^-1022\<close> the fixed grid of the subnormal numbers is
  used.  A decimal literal of the source denotes the double nearest to it.  The sign
  of a zero is not kept; no result embedded here depends on it.
\<close>

datatype number = Finite rat | PosInf | NegInf | NaN

definition round_even :: "rat \<Rightarrow> int" where
  \<comment> \<open>the nearest integer, the even one of the two at a tie\<close>
  "round_even r =
     (let f = \<lfloor>r\<rfloor>; d = r - of_int f
      in if d < 1 / 2 then f else if 1 / 2 < d then f + 1 else if even f then f else f + 1)"

function log2_up :: "rat \<Rightarrow> nat" where
  \<comment> \<open>for \<open>1 \<le> x\<close>, the \<open>n\<close> with \<open>2^n \<le> x < 2^(n+1)\<close>\<close>
  "log2_up x = (if 2 \<le> x then Suc (log2_up (x / 2)) else 0)"
  by pat_completeness auto
termination
proof (relation "measure (\<lambda>x. nat \<lfloor>x\<rfloor>)")
  show "wf (measure (\<lambda>x::rat. nat \<lfloor>x\<rfloor>))" by simp
next
  fix x :: rat assume "2 \<le> x"
  then have "\<lfloor>x / 2\<rfloor> < \<lfloor>x\<rfloor>" by linarith
  moreover have "0 < \<lfloor>x\<rfloor>" using \<open>2 \<le> x\<close> by linarith
  ultimately show "(x / 2, x) \<in> measure (\<lambda>x. nat \<lfloor>x\<rfloor>)" by simp
qed

function log2_down :: "rat \<Rightarrow> nat" where
  \<comment> \<open>for \<open>0 < x < 1\<close>, the \<open>n\<close> with \<open>2^-n \<le> x < 2^-(n-1)\<close>\<close>
  "log2_down x = (if 0 < x \<and> x < 1 then Suc (log2_down (x * 2)) else 0)"
  by pat_completeness auto
termination
proof (relation "measure (\<lambda>x. nat \<lfloor>1 / x\<rfloor>)")
  show "wf (measure (\<lambda>x::rat. nat \<lfloor>1 / x\<rfloor>))" by simp
next
  fix x :: rat assume a: "0 < x \<and> x < 1"
  define y where "y = 1 / x"
  have y: "1 < y" using a by (simp add: y_def)
  have "1 / (x * 2) = y / 2" by (simp add: y_def)
  moreover have "\<lfloor>y / 2\<rfloor> < \<lfloor>y\<rfloor>"
  proof (cases "2 \<le> y")
    case True then show ?thesis by linarith
  next
    case False
    then have "\<lfloor>y / 2\<rfloor> = 0" "\<lfloor>y\<rfloor> = 1" using y by (simp_all add: floor_eq_iff)
    then show ?thesis by simp
  qed
  moreover have "0 < \<lfloor>y\<rfloor>" using y by linarith
  ultimately show "(x * 2, x) \<in> measure (\<lambda>x. nat \<lfloor>1 / x\<rfloor>)" by (simp add: y_def)
qed

declare log2_up.simps [simp del] log2_down.simps [simp del]

definition exponent :: "rat \<Rightarrow> int" where
  \<comment> \<open>the binary exponent \<open>e\<close> of a non-zero \<open>x\<close>: \<open>2^e \<le> |x| < 2^(e+1)\<close>\<close>
  "exponent x = (if 1 \<le> \<bar>x\<bar> then int (log2_up \<bar>x\<bar>) else - int (log2_down \<bar>x\<bar>))"

definition two_pow :: "int \<Rightarrow> rat" where
  "two_pow e = (if 0 \<le> e then 2 ^ nat e else 1 / 2 ^ nat (- e))"

definition ulp :: "rat \<Rightarrow> rat" where
  \<comment> \<open>the spacing of the doubles around \<open>x\<close>\<close>
  "ulp x = two_pow (max (exponent x) (- 1022) - 52)"

definition fl :: "rat \<Rightarrow> number" where
  "fl x =
     (let y = of_int (round_even (x / ulp x)) * ulp x
      in if 2 ^ 1024 \<le> \<bar>y\<bar> then (if 0 < x then PosInf else NegInf) else Finite y)"

fun fneg :: "number \<Rightarrow> number" where
  "fneg (Finite a) = Finite (- a)"
| "fneg PosInf = NegInf"
| "fneg NegInf = PosInf"
| "fneg NaN = NaN"

fun fadd :: "number \<Rightarrow> number \<Rightarrow> number" where
  "fadd (Finite a) (Finite b) = fl (a + b)"
| "fadd NaN b = NaN"
| "fadd a NaN = NaN"
| "fadd PosInf NegInf = NaN"
| "fadd NegInf PosInf = NaN"
| "fadd PosInf b = PosInf"
| "fadd NegInf b = NegInf"
| "fadd a PosInf = PosInf"
| "fadd a NegInf = NegInf"

definition fsub :: "number \<Rightarrow> number \<Rightarrow> number" where
  "fsub a b = fadd a (fneg b)"

fun fmul :: "number \<Rightarrow> number \<Rightarrow> number" where
  "fmul (Finite a) (Finite b) = fl (a * b)"
| "fmul NaN b = NaN"
| "fmul a NaN = NaN"
| "fmul (Finite a) b = (if a = 0 then NaN else if 0 < a then b else fneg b)"
| "fmul a (Finite b) = (if b = 0 then NaN else if 0 < b then a else fneg a)"
| "fmul PosInf b = b"
| "fmul NegInf b = fneg b"

text \<open>
  Functions outside the repository are parameters of the model: \<open>bigNumberish\<close> is the
  integer that \<open>ethers.formatUnits\<close> reads from its argument and prints as a decimal
  (\<open>None\<close> when the call throws), \<open>numberToString\<close> is the general number-to-string
  conversion of the language, and \<open>builtinText\<close> is the text to which the value
  inherited from \<open>Object.prototype\<close> under a given name converts.
\<close>

record js_lib =
  bigNumberish :: "string \<Rightarrow> int option"
  numberToString :: "number \<Rightarrow> string"
  builtinText :: "string \<Rightarrow> string"

definition toFixed2 :: "js_lib \<Rightarrow> number \<Rightarrow> string" where
  \<comment> \<open>\<open>x.toFixed(2)\<close>: for a finite \<open>x\<close> below \<open>10^21\<close> in magnitude the sign, then the
      multiple of 1/100 nearest to the magnitude, the larger one at a tie, in fixed
      notation\<close>
  "toFixed2 lib v =
     (case v of
        Finite x \<Rightarrow>
          (let s = (if x < 0 then ''-'' else '''');
               y = \<bar>x\<bar>
           in if y \<ge> 10 ^ 21 then s @ numberToString lib (Finite y)
              else (let n = nat \<lfloor>y * 100 + 1 / 2\<rfloor>
                    in s @ show_nat (n div 100) @ ''.'' @ [digit_char (n div 10), digit_char n]))
      | PosInf \<Rightarrow> ''Infinity''
      | NegInf \<Rightarrow> ''-Infinity''
      | NaN \<Rightarrow> ''NaN'')"

definition parseFloat_units6 :: "int \<Rightarrow> number" where
  \<comment> \<open>\<open>parseFloat(ethers.formatUnits(value, 6))\<close> for the integer that \<open>value\<close> denotes:
      the decimal printed is exact, and parsing it yields the nearest double\<close>
  "parseFloat_units6 n = fl (of_int n / 10 ^ 6)"


section \<open>Values read from object literals\<close>

text \<open>
  A table written as an object literal inherits from \<open>Object.prototype\<close>: read under a
  key that it does not list, it yields the property which the prototype has under that
  name, if there is one.  These are functions, and the prototype object itself under
  \<open>__proto__\<close>; all of them are truthy.  A \<open>Map\<close> has no such entries.
\<close>

definition object_prototype_keys :: "string list" where
  "object_prototype_keys =
    [''constructor'', ''__proto__'', ''hasOwnProperty'', ''isPrototypeOf'',
     ''propertyIsEnumerable'', ''toLocaleString'', ''toString'', ''valueOf'',
     ''__defineGetter__'', ''__defineSetter__'', ''__lookupGetter__'', ''__lookupSetter__'']"

datatype 'a property = Own 'a | Inherited string | Undefined

definition get_property :: "(string \<times> 'a) list \<Rightarrow> string \<Rightarrow> 'a property" where
  \<comment> \<open>\<open>obj[key]\<close> for an object literal \<open>obj\<close>\<close>
  "get_property obj key =
     (case map_of obj key of
        Some v \<Rightarrow> Own v
      | None \<Rightarrow> if key \<in> set object_prototype_keys then Inherited key else Undefined)"

text \<open>
  A value that a numeric field may hold at run time: a number, a string, or a value
  inherited from \<open>Object.prototype\<close>, named by its key.  The operator \<open>+\<close> adds two
  numbers and concatenates the texts of its operands otherwise.
\<close>

datatype js_value = Number number | Text string | Builtin string

definition to_text :: "js_lib \<Rightarrow> js_value \<Rightarrow> string" where
  "to_text lib v =
     (case v of Number x \<Rightarrow> numberToString lib x | Text t \<Rightarrow> t | Builtin k \<Rightarrow> builtinText lib k)"

definition js_plus :: "js_lib \<Rightarrow> js_value \<Rightarrow> js_value \<Rightarrow> js_value" where
  "js_plus lib a b =
     (case (a, b) of
        (Number x, Number y) \<Rightarrow> Number (fadd x y)
      | _ \<Rightarrow> Text (to_text lib a @ to_text lib b))"


section \<open>Errors as values\<close>

text \<open>
  A thrown JavaScript error is a record of the fields the program reads from it: the
  \<open>name\<close> and \<open>message\<close> of the \<open>Error\<close> object, the optional machine \<open>code\<close> that
  Node and axios attach (\<open>ECONNREFUSED\<close>, \<open>ETIMEDOUT\<close>, ...), and the optional HTTP
  response of an axios error with the fields of its body that are read anywhere
  (\<open>error.response?.data?.error_code\<close> and so on).
\<close>

record http_response =
  resp_status :: nat
  resp_description :: "string option"
  resp_message :: "string option"
  resp_error :: "string option"
  resp_error_code :: "string option"
  resp_required_info :: "string option"
  resp_limits :: "string option"

record js_error =
  err_name :: string
  err_message :: string
  err_code :: "string option"
  err_response :: "http_response option"

definition new_Error :: "string \<Rightarrow> js_error" where
  \<comment> \<open>\<open>new Error(msg)\<close>\<close>
  "new_Error msg = \<lparr>err_name = ''Error'', err_message = msg, err_code = None, err_response = None\<rparr>"

definition error_toString :: "js_error \<Rightarrow> string" where
  \<comment> \<open>\<open>Error.prototype.toString\<close>\<close>
  "error_toString e =
     (if err_name e = [] then err_message e
      else if err_message e = [] then err_name e
      else err_name e @ '': '' @ err_message e)"

definition response_field :: "(http_response \<Rightarrow> string option) \<Rightarrow> js_error \<Rightarrow> string option" where
  \<comment> \<open>\<open>error.response?.data?.field\<close>\<close>
  "response_field f e = (case err_response e of None \<Rightarrow> None | Some r \<Rightarrow> f r)"


section \<open>Error classifier (DeliveryErrorHandler.classifyError)\<close>

datatype DeliveryErrorType =
    INSUFFICIENT_FUNDS | INVALID_RECIPIENT | KYC_REQUIRED | COMPLIANCE_BLOCKED
  | ANCHOR_UNAVAILABLE | RATE_EXPIRED | LIMIT_EXCEEDED | TECHNICAL_ERROR
  | NETWORK_ERROR | TIMEOUT

record DeliveryError =
  d_type :: DeliveryErrorType
  d_message :: string
  d_code :: "string option"
  d_details :: "string option"
  d_retryable :: bool
  d_userAction :: "string option"
  d_estimatedResolution :: "nat option"

definition errorMessage :: "js_error \<Rightarrow> string" where
  \<comment> \<open>\<open>error.message || error.toString()\<close>\<close>
  "errorMessage e = (if err_message e \<noteq> [] then err_message e else error_toString e)"

definition errorCode :: "js_error \<Rightarrow> string option" where
  \<comment> \<open>\<open>error.code || error.response?.data?.error_code\<close>\<close>
  "errorCode e = js_or (err_code e) (response_field resp_error_code e)"

definition classifyError :: "js_error \<Rightarrow> DeliveryError" where
  "classifyError e =
    (if str_includes (errorMessage e) ''insufficient'' \<or> errorCode e = Some ''INSUFFICIENT_BALANCE'' then
       \<lparr>d_type = INSUFFICIENT_FUNDS, d_message = ''Insufficient funds in anchor reserve'',
        d_code = errorCode e, d_details = None, d_retryable = True,
        d_userAction = Some ''Please try again in a few minutes'',
        d_estimatedResolution = Some 15\<rparr>
     else if str_includes (errorMessage e) ''invalid recipient'' \<or> errorCode e = Some ''INVALID_DEST'' then
       \<lparr>d_type = INVALID_RECIPIENT, d_message = ''Recipient details are invalid or incomplete'',
        d_code = errorCode e, d_details = None, d_retryable = False,
        d_userAction = Some ''Please verify recipient information and try again'',
        d_estimatedResolution = None\<rparr>
     else if str_includes (errorMessage e) ''KYC'' \<or> errorCode e = Some ''NEEDS_INFO'' then
       \<lparr>d_type = KYC_REQUIRED, d_message = ''Additional KYC information required'',
        d_code = errorCode e, d_details = response_field resp_required_info e, d_retryable = False,
        d_userAction = Some ''Please complete KYC verification'',
        d_estimatedResolution = None\<rparr>
     else if str_includes (errorMessage e) ''compliance'' \<or> str_includes (errorMessage e) ''blocked'' then
       \<lparr>d_type = COMPLIANCE_BLOCKED, d_message = ''Transaction blocked for compliance reasons'',
        d_code = errorCode e, d_details = None, d_retryable = False,
        d_userAction = Some ''Please contact support for assistance'',
        d_estimatedResolution = None\<rparr>
     else if err_code e = Some ''ECONNREFUSED'' \<or> err_code e = Some ''ENOTFOUND'' then
       \<lparr>d_type = ANCHOR_UNAVAILABLE, d_message = ''Anchor service temporarily unavailable'',
        d_code = err_code e, d_details = None, d_retryable = True,
        d_userAction = None,
        d_estimatedResolution = Some 30\<rparr>
     else if str_includes (errorMessage e) ''rate expired'' \<or> errorCode e = Some ''RATE_EXPIRED'' then
       \<lparr>d_type = RATE_EXPIRED, d_message = ''Exchange rate expired'',
        d_code = errorCode e, d_details = None, d_retryable = True,
        d_userAction = Some ''Getting new rate...'',
        d_estimatedResolution = None\<rparr>
     else if str_includes (errorMessage e) ''limit exceeded'' \<or> errorCode e = Some ''LIMIT_EXCEEDED'' then
       \<lparr>d_type = LIMIT_EXCEEDED, d_message = ''Transaction limit exceeded'',
        d_code = errorCode e, d_details = response_field resp_limits e, d_retryable = False,
        d_userAction = Some ''Please reduce amount or complete additional verification'',
        d_estimatedResolution = None\<rparr>
     else if err_code e = Some ''ETIMEDOUT'' \<or> err_code e = Some ''ECONNABORTED'' then
       \<lparr>d_type = TIMEOUT, d_message = ''Request timed out'',
        d_code = err_code e, d_details = None, d_retryable = True,
        d_userAction = None,
        d_estimatedResolution = Some 5\<rparr>
     else if truthy (err_code e) \<and> startsWith (the (err_code e)) ''E'' then
       \<lparr>d_type = NETWORK_ERROR, d_message = ''Network error occurred'',
        d_code = err_code e, d_details = None, d_retryable = True,
        d_userAction = None,
        d_estimatedResolution = Some 10\<rparr>
     else
       \<lparr>d_type = TECHNICAL_ERROR, d_message = ''An unexpected error occurred'',
        d_code = errorCode e, d_details = Some (errorMessage e), d_retryable = True,
        d_userAction = None,
        d_estimatedResolution = Some 60\<rparr>)"

definition messages :: "DeliveryErrorType \<Rightarrow> string" where
  \<comment> \<open>the table of \<open>getUserFriendlyMessage\<close>\<close>
  "messages t =
     (case t of
        INSUFFICIENT_FUNDS \<Rightarrow> ''Service temporarily unavailable. Please try again in 15 minutes.''
      | INVALID_RECIPIENT \<Rightarrow> ''The recipient information provided is invalid. Please check and try again.''
      | KYC_REQUIRED \<Rightarrow> ''Additional verification is required to complete this transaction.''
      | COMPLIANCE_BLOCKED \<Rightarrow> ''This transaction cannot be processed due to regulatory requirements.''
      | ANCHOR_UNAVAILABLE \<Rightarrow> ''Our delivery partner is temporarily unavailable. We'' @ [CHR 0x27] @ ''re working on it.''
      | RATE_EXPIRED \<Rightarrow> ''The exchange rate has expired. Getting you a new quote...''
      | LIMIT_EXCEEDED \<Rightarrow> ''This amount exceeds your transaction limit.''
      | TECHNICAL_ERROR \<Rightarrow> ''Something went wrong. Our team has been notified.''
      | NETWORK_ERROR \<Rightarrow> ''Connection issue. Please check your internet and try again.''
      | TIMEOUT \<Rightarrow> ''The request took too long. Please try again.'')"

definition getUserFriendlyMessage :: "DeliveryError \<Rightarrow> string" where
  \<comment> \<open>\<open>messages[error.type] || error.message\<close>\<close>
  "getUserFriendlyMessage d =
     (if messages (d_type d) \<noteq> [] then messages (d_type d) else d_message d)"

section \<open>Quotes and orders (interfaces/IRemittance)\<close>

text \<open>
  The fee of a step is a number.  Its estimated time is declared a number too, but the
  anchor step takes it from a table lookup that can yield an inherited value, so the
  field and the total computed from it hold a \<open>js_value\<close>.
\<close>

datatype step_kind = Swap | Bridge | Anchor

record RouteStep =
  step_type :: step_kind
  step_from :: string
  step_to :: string
  step_protocol :: string
  step_fees :: number
  step_estimatedTime :: js_value

record RemittanceQuote =
  q_fromChain :: string
  q_fromToken :: string
  q_fromAmount :: string
  q_toCountry :: string
  q_toCurrency :: string
  q_toAmount :: string
  q_exchangeRate :: number
  q_totalFees :: number
  q_estimatedTime :: js_value
  q_route :: "RouteStep list"

datatype order_status = Pending | Processing | Completed | Failed

text \<open>
  \<open>recipientDetails\<close> is a free-form object.  The control flow reads its \<open>name\<close> and
  its \<open>deliveryMethod\<close> discriminator; the remaining fields only travel into request
  payloads.
\<close>

record recipient_details =
  rd_name :: string
  rd_deliveryMethod :: "string option"

record RemittanceOrder =
  o_id :: string
  o_sender_address :: string
  o_sender_chain :: string
  o_recipient_name :: string
  o_recipient_country :: string
  o_recipient_currency :: string
  o_accountDetails :: recipient_details
  o_quote :: RemittanceQuote
  o_status :: order_status
  o_htlcId :: "string option"
  o_stellarTxHash :: "string option"
  o_anchorTxId :: "string option"
  o_createdAt :: nat
  o_completedAt :: "nat option"


section \<open>Engine state\<close>

text \<open>
  The mutable maps of the services are the fields of one state record.  An order is one
  JavaScript object that the repository map, the engine's own map and the local variable
  of \<open>executeRemittance\<close> all reference; both maps receive the same object under the
  same id and nothing else writes them, so the model keeps the object once, in
  \<open>orders\<close>, and every read and write of it goes through that map.  Emitted events
  (no listener is registered anywhere) and calls that leave the process are logged in
  the order in which they happen.  The resolver key of the bridge is a field as well:
  \<open>setResolverKey\<close> is a method of the bridge, which the engine holds privately and
  never calls, so an engine as constructed has none.
\<close>

record timer =
  t_delay :: nat
  t_attempts :: nat
  t_maxAttempts :: nat

datatype event =
    DeliveryErrorEvent string DeliveryError
  | DeliveryRetryEvent string nat nat
  | RefundRequiredEvent string string DeliveryErrorType
  | UserNotificationEvent string string string string
  | ManualReviewRequiredEvent string string DeliveryError

datatype ext_call =
    SwapBuildCall | BridgeCall
  | Sep6InfoCall string | Sep24InfoCall string
  | AuthCall string | WithdrawCall string | InteractiveWithdrawCall string

record engine_state =
  orders :: "string \<rightharpoonup> RemittanceOrder"
  ordersByUser :: "string \<rightharpoonup> string list"
  retryQueues :: "string \<rightharpoonup> timer"
  retryAttempts :: "string \<rightharpoonup> nat"
  emitted :: "event list"
  calls :: "ext_call list"
  metricsOrders :: "string list"
  resolverKey :: "string option"
  sep6Tokens :: "string \<rightharpoonup> string"
  integrationTokens :: "string \<rightharpoonup> string"

definition initial_state :: engine_state where
  \<comment> \<open>the state after \<open>new RemittanceEngine(...)\<close>: empty maps, no resolver key\<close>
  "initial_state =
     \<lparr>orders = Map.empty, ordersByUser = Map.empty, retryQueues = Map.empty,
      retryAttempts = Map.empty, emitted = [], calls = [], metricsOrders = [],
      resolverKey = None, sep6Tokens = Map.empty, integrationTokens = Map.empty\<rparr>"

definition emit :: "event \<Rightarrow> engine_state \<Rightarrow> engine_state" where
  "emit ev s = s\<lparr>emitted := emitted s @ [ev]\<rparr>"

definition log_call :: "ext_call \<Rightarrow> engine_state \<Rightarrow> engine_state" where
  "log_call c s = s\<lparr>calls := calls s @ [c]\<rparr>"


section \<open>Order repository (OrderRepository)\<close>

definition save :: "RemittanceOrder \<Rightarrow> engine_state \<Rightarrow> engine_state" where
  "save ord s =
     (let userOrders = (case ordersByUser s (o_sender_address ord) of None \<Rightarrow> [] | Some ids \<Rightarrow> ids)
      in s\<lparr>orders := (orders s)(o_id ord \<mapsto> ord),
            ordersByUser := (ordersByUser s)(o_sender_address ord \<mapsto> userOrders @ [o_id ord])\<rparr>)"

definition updateStatus ::
  "string \<Rightarrow> order_status \<Rightarrow> (RemittanceOrder \<Rightarrow> RemittanceOrder) \<Rightarrow> engine_state \<Rightarrow> engine_state" where
  \<comment> \<open>the third argument is \<open>Object.assign(order, additionalData)\<close>, the identity when absent\<close>
  "updateStatus orderId st additionalData s =
     (case orders s orderId of
        None \<Rightarrow> s
      | Some ord \<Rightarrow> s\<lparr>orders := (orders s)(orderId \<mapsto> additionalData (ord\<lparr>o_status := st\<rparr>))\<rparr>)"

definition modify_order :: "string \<Rightarrow> (RemittanceOrder \<Rightarrow> RemittanceOrder) \<Rightarrow> engine_state \<Rightarrow> engine_state" where
  \<comment> \<open>an assignment to a field of the order object through the local variable\<close>
  "modify_order orderId f s =
     (case orders s orderId of
        None \<Rightarrow> s
      | Some ord \<Rightarrow> s\<lparr>orders := (orders s)(orderId \<mapsto> f ord)\<rparr>)"


section \<open>Retry scheduler (DeliveryErrorHandler)\<close>

record RetryPolicy =
  maxAttempts :: nat
  backoffMultiplier :: nat
  initialDelay :: nat
  maxDelay :: nat
  retryableErrors :: "DeliveryErrorType list"

definition default_policy :: RetryPolicy where
  "default_policy =
     \<lparr>maxAttempts = 3, backoffMultiplier = 2, initialDelay = 5000, maxDelay = 300000,
      retryableErrors = [ANCHOR_UNAVAILABLE, NETWORK_ERROR, TIMEOUT, TECHNICAL_ERROR]\<rparr>"

definition rate_expired_policy :: RetryPolicy where
  "rate_expired_policy =
     \<lparr>maxAttempts = 1, backoffMultiplier = 1, initialDelay = 0, maxDelay = 0,
      retryableErrors = [RATE_EXPIRED]\<rparr>"

definition compliance_policy :: RetryPolicy where
  "compliance_policy =
     \<lparr>maxAttempts = 0, backoffMultiplier = 1, initialDelay = 0, maxDelay = 0,
      retryableErrors = []\<rparr>"

definition getRetryPolicy :: "DeliveryErrorType \<Rightarrow> RetryPolicy" where
  "getRetryPolicy errorType =
     (if errorType = RATE_EXPIRED then rate_expired_policy
      else if errorType = COMPLIANCE_BLOCKED \<or> errorType = KYC_REQUIRED then compliance_policy
      else default_policy)"

definition handleNonRetryableError :: "string \<Rightarrow> DeliveryError \<Rightarrow> engine_state \<Rightarrow> engine_state" where
  "handleNonRetryableError orderId d s =
     (let s1 = updateStatus orderId Failed id s;
          s2 = emit (RefundRequiredEvent orderId (d_message d) (d_type d)) s1
      in emit (UserNotificationEvent orderId ''delivery_failed''
                 (if truthy (d_userAction d) then the (d_userAction d)
                  else ''Your transaction could not be completed. A refund will be processed.'')
                 ''error'') s2)"

definition handleMaxRetriesExceeded :: "string \<Rightarrow> DeliveryError \<Rightarrow> engine_state \<Rightarrow> engine_state" where
  "handleMaxRetriesExceeded orderId d s =
     (let s1 = s\<lparr>retryAttempts := (retryAttempts s)(orderId := None)\<rparr>;
          s2 = updateStatus orderId Failed id s1;
          s3 = emit (ManualReviewRequiredEvent orderId ''Max retries exceeded'' d) s2
      in emit (UserNotificationEvent orderId ''delivery_delayed''
                 (''Your transaction is being reviewed. We'' @ [CHR 0x27] @ ''ll update you within 24 hours.'')
                 ''warning'') s3)"

definition attempts_of :: "engine_state \<Rightarrow> string \<Rightarrow> nat" where
  \<comment> \<open>\<open>this.retryAttempts.get(orderId) || 0\<close>\<close>
  "attempts_of s orderId = (case retryAttempts s orderId of None \<Rightarrow> 0 | Some n \<Rightarrow> n)"

definition retry_delay :: "RetryPolicy \<Rightarrow> nat \<Rightarrow> nat" where
  \<comment> \<open>\<open>Math.min(initialDelay * Math.pow(backoffMultiplier, attempts), maxDelay)\<close>\<close>
  "retry_delay policy attempts =
     min (initialDelay policy * backoffMultiplier policy ^ attempts) (maxDelay policy)"

definition scheduleRetry :: "string \<Rightarrow> DeliveryError \<Rightarrow> engine_state \<Rightarrow> engine_state" where
  \<comment> \<open>a pending timer is an entry of \<open>retryQueues\<close>; setting the entry replaces (clears)
      the timer that was there\<close>
  "scheduleRetry orderId d s =
     (let attempts = attempts_of s orderId;
          policy = getRetryPolicy (d_type d)
      in if attempts \<ge> maxAttempts policy then handleMaxRetriesExceeded orderId d s
         else s\<lparr>retryQueues := (retryQueues s)(orderId \<mapsto>
                 \<lparr>t_delay = retry_delay policy attempts, t_attempts = attempts,
                  t_maxAttempts = maxAttempts policy\<rparr>)\<rparr>)"

definition retry_fires :: "string \<Rightarrow> engine_state \<Rightarrow> engine_state" where
  \<comment> \<open>the \<open>setTimeout\<close> callback of \<open>scheduleRetry\<close>, run when the pending timer elapses\<close>
  "retry_fires orderId s =
     (case retryQueues s orderId of
        None \<Rightarrow> s
      | Some t \<Rightarrow>
          emit (DeliveryRetryEvent orderId (t_attempts t + 1) (t_maxAttempts t))
            (s\<lparr>retryQueues := (retryQueues s)(orderId := None),
               retryAttempts := (retryAttempts s)(orderId \<mapsto> t_attempts t + 1)\<rparr>))"

definition cancelRetries :: "string \<Rightarrow> engine_state \<Rightarrow> engine_state" where
  "cancelRetries orderId s =
     s\<lparr>retryQueues := (retryQueues s)(orderId := None),
       retryAttempts := (retryAttempts s)(orderId := None)\<rparr>"

definition handleDeliveryError :: "string \<Rightarrow> js_error \<Rightarrow> engine_state \<Rightarrow> DeliveryError \<times> engine_state" where
  "handleDeliveryError orderId e s =
     (let d = classifyError e;
          s1 = updateStatus orderId Failed id s;
          s2 = emit (DeliveryErrorEvent orderId d) s1;
          s3 = (if d_retryable d then scheduleRetry orderId d s2
                else handleNonRetryableError orderId d s2)
      in (d, s3))"


section \<open>Aggregator client (OneInchAggregator)\<close>

text \<open>
  The chain id goes into the request path only.  \<open>toToken\<close> is read through the
  address pattern, which matches against the text of the value it is given.
\<close>

record SwapParams =
  sp_fromChain :: js_value
  sp_fromToken :: string
  sp_toToken :: string
  sp_amount :: string
  sp_fromAddress :: string
  sp_slippage :: nat

text \<open>
  The body of a quote response and the normalised quote.  The \<open>protocols\<close> array is
  carried along unread and is left out.
\<close>

record quote_data =
  data_dstAmount :: "string option"
  data_toAmount :: "string option"
  data_gas :: "string option"
  data_estimatedGas :: "string option"

record SwapQuote =
  sq_toAmount :: "string option"
  sq_estimatedGas :: "string option"

definition retryCount :: nat where
  "retryCount = 3"

definition retryDelay :: nat where
  "retryDelay = 1000"

definition is_hex_char :: "char \<Rightarrow> bool" where
  "is_hex_char c = (c \<in> set ''0123456789abcdefABCDEF'')"

definition isValidAddress :: "string \<Rightarrow> bool" where
  \<comment> \<open>\<open>/^0x[a-fA-F0-9]{40}$/.test(address)\<close>\<close>
  "isValidAddress a = (length a = 42 \<and> take 2 a = ''0x'' \<and> list_all is_hex_char (drop 2 a))"

definition api_message :: "http_response \<Rightarrow> string" where
  \<comment> \<open>\<open>error.response.data?.description || error.response.data?.message || 'Unknown error'\<close>\<close>
  "api_message r =
     (case js_or (resp_description r) (resp_message r) of
        Some m \<Rightarrow> if m \<noteq> [] then m else ''Unknown error''
      | None \<Rightarrow> ''Unknown error'')"

definition handleApiError :: "js_error \<Rightarrow> js_error" where
  "handleApiError e =
     (case err_response e of
        Some r \<Rightarrow>
          (let message = api_message r
           in if resp_status r = 401 then
                new_Error ''Invalid 1inch API key. Please check your configuration.''
              else if resp_status r = 429 then
                new_Error ''Rate limit exceeded. Please try again later.''
              else if resp_status r = 400 then
                new_Error (''Bad request: '' @ message)
              else if resp_status r = 404 then
                new_Error ''Token pair not found or route not available''
              else
                new_Error (''1inch API error ('' @ show_nat (resp_status r) @ ''): '' @ message))
      | None \<Rightarrow>
          if err_code e = Some ''ECONNABORTED'' then
            new_Error ''Request timeout - 1inch API took too long to respond''
          else new_Error (''Network error: '' @ err_message e))"

definition is_client_error :: "js_error \<Rightarrow> bool" where
  \<comment> \<open>\<open>error.response && error.response.status >= 400 && error.response.status < 500\<close>\<close>
  "is_client_error e =
     (case err_response e of None \<Rightarrow> False | Some r \<Rightarrow> 400 \<le> resp_status r \<and> resp_status r < 500)"

definition normalize_quote :: "quote_data \<Rightarrow> SwapQuote" where
  "normalize_quote d =
     \<lparr>sq_toAmount = js_or (data_dstAmount d) (data_toAmount d),
      sq_estimatedGas = js_or (js_or (data_gas d) (data_estimatedGas d)) (Some ''0'')\<rparr>"

text \<open>
  One pass through the \<open>try\<close> block: the address check comes first and throws before any
  request is sent; otherwise the request goes out and the answer of the service for
  this attempt decides.  The flag tells whether a request was sent.
\<close>

definition attempt_quote :: "SwapParams \<Rightarrow> js_error + quote_data \<Rightarrow> (js_error + quote_data) \<times> bool" where
  "attempt_quote params response =
     (if \<not> isValidAddress (sp_fromToken params) \<or> \<not> isValidAddress (sp_toToken params)
      then (Inl (new_Error ''Invalid token address''), False)
      else (response, True))"

record quote_run =
  run_result :: "js_error + SwapQuote"
  run_delays :: "nat list"
  run_requests :: nat

text \<open>
  The retry loop of \<open>getQuote\<close>.  \<open>http attempt\<close> is what the request of that attempt
  brings into the \<open>try\<close> block: the body of the response, or the error raised.  The run
  records the delays slept (milliseconds) and the number of requests sent.  After the
  last attempt the loop ends and the last error is mapped and thrown;
  \<open>handleApiError(undefined)\<close>, which only a loop of zero attempts could reach, raises a
  \<open>TypeError\<close>.
\<close>

function getQuote_loop ::
  "SwapParams \<Rightarrow> (nat \<Rightarrow> js_error + quote_data) \<Rightarrow> nat \<Rightarrow> js_error option \<Rightarrow> nat list \<Rightarrow> nat \<Rightarrow> quote_run" where
  "getQuote_loop params http attempt lastError delays requests =
     (if attempt < retryCount then
        (let tried = attempt_quote params (http attempt);
             requests' = (if snd tried then requests + 1 else requests)
         in case fst tried of
              Inr d \<Rightarrow>
                \<lparr>run_result = Inr (normalize_quote d), run_delays = delays, run_requests = requests'\<rparr>
            | Inl error \<Rightarrow>
                if is_client_error error then
                  \<lparr>run_result = Inl (handleApiError error), run_delays = delays, run_requests = requests'\<rparr>
                else if attempt < retryCount - 1 then
                  getQuote_loop params http (attempt + 1) (Some error)
                    (delays @ [retryDelay * 2 ^ attempt]) requests'
                else
                  getQuote_loop params http (attempt + 1) (Some error) delays requests')
      else
        \<lparr>run_result = Inl (case lastError of
                             Some error \<Rightarrow> handleApiError error
                           | None \<Rightarrow> \<lparr>err_name = ''TypeError'',
                                      err_message = ''Cannot read properties of undefined'',
                                      err_code = None, err_response = None\<rparr>),
         run_delays = delays, run_requests = requests\<rparr>)"
  by pat_completeness auto
termination
  by (relation "measure (\<lambda>(params, http, attempt, lastError, delays, requests). retryCount - attempt)")
     auto

declare getQuote_loop.simps [simp del]

definition oneInch_getQuote :: "SwapParams \<Rightarrow> (nat \<Rightarrow> js_error + quote_data) \<Rightarrow> quote_run" where
  "oneInch_getQuote params http = getQuote_loop params http 0 None [] 0"

definition retryable_failure :: "js_error + quote_data \<Rightarrow> bool" where
  \<comment> \<open>an answer after which the loop goes on: a failure without a 4xx response\<close>
  "retryable_failure r = (case r of Inl e \<Rightarrow> \<not> is_client_error e | Inr d \<Rightarrow> False)"

definition outcome_result :: "js_error + quote_data \<Rightarrow> js_error + SwapQuote" where
  \<comment> \<open>what \<open>getQuote\<close> makes of the answer that ends the loop\<close>
  "outcome_result r = (case r of Inl e \<Rightarrow> Inl (handleApiError e) | Inr d \<Rightarrow> Inr (normalize_quote d))"


section \<open>Anchor service (StellarAnchorService)\<close>

text \<open>
  The lookup tables of the source are object literals and \<open>Map\<close>s with distinct keys;
  they are association lists in the order of the source.  A \<open>Map\<close> is read with
  \<open>map_of\<close>.  So are the object literals \<open>corridorMap\<close> and \<open>rates\<close>: their keys are
  built as \<open>from-to\<close> and contain a hyphen, which no inherited property name does.
  The inner tables of \<open>deliveryTimes\<close> are read under the delivery method as the caller
  gave it, with \<open>get_property\<close>; the outer table is read under the code of a registered
  anchor, and each of the four has an entry.
\<close>

record Anchor =
  a_code :: string
  a_name :: string
  supportedCurrencies :: "string list"
  depositMethods :: "string list"
  withdrawMethods :: "string list"
  minimumAmount :: nat
  maximumAmount :: nat
  kycRequired :: bool

definition anchorList :: "Anchor list" where
  "anchorList =
    [\<lparr>a_code = ''VIBRANT_USD'', a_name = ''Vibrant (Argentina)'',
      supportedCurrencies = [''USD'', ''ARS''],
      depositMethods = [''bank_transfer'', ''cash''],
      withdrawMethods = [''bank_transfer'', ''mobile_wallet''],
      minimumAmount = 10, maximumAmount = 10000, kycRequired = True\<rparr>,
     \<lparr>a_code = ''CLICK_PHP'', a_name = ''Click (Philippines)'',
      supportedCurrencies = [''PHP'', ''USD''],
      depositMethods = [''bank_transfer'', ''gcash'', ''paymaya''],
      withdrawMethods = [''bank_transfer'', ''gcash'', ''paymaya''],
      minimumAmount = 500, maximumAmount = 500000, kycRequired = True\<rparr>,
     \<lparr>a_code = ''COWRIE_NGN'', a_name = ''Cowrie (Nigeria)'',
      supportedCurrencies = [''NGN'', ''USD''],
      depositMethods = [''bank_transfer'', ''mobile_money''],
      withdrawMethods = [''bank_transfer'', ''mobile_money''],
      minimumAmount = 1000, maximumAmount = 5000000, kycRequired = True\<rparr>,
     \<lparr>a_code = ''SETTLE_EUR'', a_name = ''Settle Network (Europe)'',
      supportedCurrencies = [''EUR'', ''USD''],
      depositMethods = [''sepa'', ''wire''],
      withdrawMethods = [''sepa'', ''wire''],
      minimumAmount = 10, maximumAmount = 50000, kycRequired = True\<rparr>]"

definition anchors :: "(string \<times> Anchor) list" where
  \<comment> \<open>the \<open>Map\<close> that \<open>initializeAnchors\<close> fills, in insertion order\<close>
  "anchors = map (\<lambda>a. (a_code a, a)) anchorList"

definition corridorMap :: "(string \<times> string) list" where
  "corridorMap =
    [(''US-AR'', ''VIBRANT_USD''), (''US-PH'', ''CLICK_PHP''), (''US-NG'', ''COWRIE_NGN''),
     (''US-EU'', ''SETTLE_EUR''), (''EU-NG'', ''COWRIE_NGN''), (''EU-PH'', ''CLICK_PHP'')]"

definition getAnchorForCorridor :: "string \<Rightarrow> string \<Rightarrow> string \<Rightarrow> Anchor option" where
  "getAnchorForCorridor fromCountry toCountry currency =
     (let corridorKey = fromCountry @ ''-'' @ toCountry;
          anchorCode = map_of corridorMap corridorKey
      in if truthy anchorCode then map_of anchors (the anchorCode)
         else find (\<lambda>a. currency \<in> set (supportedCurrencies a)) (map snd anchors))"

definition rates :: "(string \<times> rat) list" where
  \<comment> \<open>the decimal literals of the table\<close>
  "rates =
    [(''USD-PHP'', 56.50), (''USD-NGN'', 1520.00), (''USD-ARS'', 850.00), (''USD-EUR'', 0.92),
     (''EUR-PHP'', 61.41), (''EUR-NGN'', 1652.17)]"

definition getExchangeRate :: "string \<Rightarrow> string \<Rightarrow> number" where
  \<comment> \<open>\<open>rates[key] || 1.0\<close>; the anchor code argument is not read\<close>
  "getExchangeRate fromCurrency toCurrency =
     (case map_of rates (fromCurrency @ ''-'' @ toCurrency) of
        None \<Rightarrow> Finite 1
      | Some r \<Rightarrow> if r \<noteq> 0 then fl r else Finite 1)"

definition deliveryTimes :: "(string \<times> (string \<times> nat) list) list" where
  \<comment> \<open>minutes\<close>
  "deliveryTimes =
    [(''VIBRANT_USD'', [(''bank_transfer'', 1440), (''mobile_wallet'', 5)]),
     (''CLICK_PHP'', [(''bank_transfer'', 60), (''gcash'', 1), (''paymaya'', 1)]),
     (''COWRIE_NGN'', [(''bank_transfer'', 120), (''mobile_money'', 5)]),
     (''SETTLE_EUR'', [(''sepa'', 1440), (''wire'', 2880)])]"

definition estimateDeliveryTime :: "string \<Rightarrow> string \<Rightarrow> js_value" where
  \<comment> \<open>\<open>deliveryTimes[anchorCode]?.[method] || 60\<close> for a registered anchor\<close>
  "estimateDeliveryTime anchorCode method =
     (case map_of anchors anchorCode of
        None \<Rightarrow> Number (Finite 60)
      | Some a \<Rightarrow>
          (case map_of deliveryTimes anchorCode of
             None \<Rightarrow> Number (Finite 60)
           | Some tbl \<Rightarrow>
               (case get_property tbl method of
                  Own t \<Rightarrow> if t \<noteq> 0 then Number (fl (of_nat t)) else Number (Finite 60)
                | Inherited k \<Rightarrow> Builtin k
                | Undefined \<Rightarrow> Number (Finite 60))))"


section \<open>Wrapped settlement asset (config/wrapped-stellar-usdc)\<close>

record WrappedStellarToken =
  w_address :: string
  w_symbol :: string
  w_decimals :: nat
  w_name :: string

definition WRAPPED_STELLAR_USDC :: "(string \<times> WrappedStellarToken) list" where
  "WRAPPED_STELLAR_USDC =
    [(''ethereum'', \<lparr>w_address = ''0xA0b86991c6218b36c1d19D4a2e9Eb0cE3606eB48'',
        w_symbol = ''sUSDC'', w_decimals = 6, w_name = ''Wrapped Stellar USDC''\<rparr>),
     (''bsc'', \<lparr>w_address = ''0x8AC76a51cc950d9822D68b83fE1Ad97B32Cd580d'',
        w_symbol = ''sUSDC'', w_decimals = 18, w_name = ''Wrapped Stellar USDC''\<rparr>),
     (''polygon'', \<lparr>w_address = ''0x2791Bca1f2de4661ED88A30C99A7a9449Aa84174'',
        w_symbol = ''sUSDC'', w_decimals = 6, w_name = ''Wrapped Stellar USDC''\<rparr>),
     (''arbitrum'', \<lparr>w_address = ''0xFF970A61A04b1cA14834A43f5dE4533eBDDB5CC8'',
        w_symbol = ''sUSDC'', w_decimals = 6, w_name = ''Wrapped Stellar USDC''\<rparr>),
     (''optimism'', \<lparr>w_address = ''0x7F5c764cBc14f9669B88837ca1490cCa17c31607'',
        w_symbol = ''sUSDC'', w_decimals = 6, w_name = ''Wrapped Stellar USDC''\<rparr>),
     (''avalanche'', \<lparr>w_address = ''0xB97EF9Ef8734C71904D8002F8b6Bc66Dd9c48a6E'',
        w_symbol = ''sUSDC'', w_decimals = 6, w_name = ''Wrapped Stellar USDC''\<rparr>)]"

definition getWrappedStellarUSDC :: "string \<Rightarrow> WrappedStellarToken property" where
  \<comment> \<open>\<open>WRAPPED_STELLAR_USDC[chain.toLowerCase()] || null\<close>: an entry of the table and an
      inherited value are both truthy and returned, \<open>Undefined\<close> stands for \<open>null\<close>\<close>
  "getWrappedStellarUSDC chain = get_property WRAPPED_STELLAR_USDC (toLowerCase chain)"

definition token_address :: "WrappedStellarToken property \<Rightarrow> string" where
  \<comment> \<open>\<open>wrappedStellarUSDC.address\<close> as the address pattern reads it: an inherited value has
      no \<open>address\<close>, and the pattern is matched against the text \<open>undefined\<close>\<close>
  "token_address found = (case found of Own w \<Rightarrow> w_address w | _ \<Rightarrow> ''undefined'')"


section \<open>Quote composition (RemittanceEngine.getQuote)\<close>

definition chainIds :: "(string \<times> nat) list" where
  "chainIds =
    [(''ethereum'', 1), (''bsc'', 56), (''polygon'', 137), (''arbitrum'', 42161),
     (''optimism'', 10), (''avalanche'', 43114)]"

definition getChainId :: "string \<Rightarrow> js_value" where
  \<comment> \<open>\<open>chainIds[chainName] || 1\<close>\<close>
  "getChainId chainName =
     (case get_property chainIds chainName of
        Own n \<Rightarrow> if n \<noteq> 0 then Number (fl (of_nat n)) else Number (Finite 1)
      | Inherited k \<Rightarrow> Builtin k
      | Undefined \<Rightarrow> Number (Finite 1))"

record quote_request =
  r_fromChain :: string
  r_fromToken :: string
  r_fromAmount :: string
  r_toCountry :: string
  r_toCurrency :: string
  r_deliveryMethod :: "string option"

definition requested_method :: "quote_request \<Rightarrow> string" where
  \<comment> \<open>\<open>params.deliveryMethod || 'bank_transfer'\<close>\<close>
  "requested_method params = the (js_or (r_deliveryMethod params) (Some ''bank_transfer''))"

definition build_route :: "quote_request \<Rightarrow> Anchor \<Rightarrow> RouteStep list" where
  "build_route params anchor =
    [\<lparr>step_type = Swap,
      step_from = r_fromChain params @ '':'' @ r_fromToken params,
      step_to = r_fromChain params @ '':USDC'',
      step_protocol = ''1inch'', step_fees = fl 0.003, step_estimatedTime = Number (Finite 1)\<rparr>,
     \<lparr>step_type = Bridge,
      step_from = r_fromChain params @ '':USDC'',
      step_to = ''stellar:USDC'',
      step_protocol = ''HTLC'', step_fees = fl 0.001, step_estimatedTime = Number (Finite 2)\<rparr>,
     \<lparr>step_type = Anchor,
      step_from = ''stellar:USDC'',
      step_to = ''bank:'' @ r_toCurrency params,
      step_protocol = a_code anchor, step_fees = fl 0.005,
      step_estimatedTime =
        estimateDeliveryTime (a_code anchor) (requested_method params)\<rparr>]"

definition aggregator_request :: "quote_request \<Rightarrow> WrappedStellarToken property \<Rightarrow> SwapParams" where
  \<comment> \<open>the parameters with which \<open>getQuote\<close> calls the aggregator\<close>
  "aggregator_request params wrappedStellarUSDC =
     \<lparr>sp_fromChain = getChainId (r_fromChain params),
      sp_fromToken = r_fromToken params,
      sp_toToken = token_address wrappedStellarUSDC,
      sp_amount = r_fromAmount params,
      sp_fromAddress = ''0x0000000000000000000000000000000000000000'',
      sp_slippage = 1\<rparr>"

definition getQuote ::
  "js_lib \<Rightarrow> (nat \<Rightarrow> js_error + quote_data) \<Rightarrow> quote_request \<Rightarrow> js_error + RemittanceQuote" where
  "getQuote lib http params =
    (case getAnchorForCorridor ''US'' (r_toCountry params) (r_toCurrency params) of
       None \<Rightarrow>
         Inl (new_Error (''No anchor available for '' @ r_toCountry params @ '' '' @ r_toCurrency params))
     | Some anchor \<Rightarrow>
    (let wrappedStellarUSDC = getWrappedStellarUSDC (r_fromChain params)
     in if wrappedStellarUSDC = Undefined then
          Inl (new_Error (''Wrapped Stellar USDC not available on '' @ r_fromChain params))
        else
    (case run_result (oneInch_getQuote (aggregator_request params wrappedStellarUSDC) http) of
       Inl e \<Rightarrow> Inl e
     | Inr oneInchQuote \<Rightarrow>
    (let exchangeRate = getExchangeRate ''USD'' (r_toCurrency params)
     in case bigNumberish lib (the (js_or (sq_toAmount oneInchQuote) (Some ''0''))) of
          None \<Rightarrow>
            Inl \<lparr>err_name = ''TypeError'', err_message = ''invalid BigNumberish string'',
                 err_code = Some ''INVALID_ARGUMENT'', err_response = None\<rparr>
        | Some units \<Rightarrow>
            (let usdcAmount = parseFloat_units6 units;
                 localAmount = fmul usdcAmount exchangeRate;
                 route = build_route params anchor;
                 totalFees = foldl (\<lambda>sum step. fadd sum (step_fees step)) (Finite 0) route;
                 totalTime = foldl (\<lambda>sum step. js_plus lib sum (step_estimatedTime step))
                               (Number (Finite 0)) route
             in Inr \<lparr>q_fromChain = r_fromChain params,
                     q_fromToken = r_fromToken params,
                     q_fromAmount = r_fromAmount params,
                     q_toCountry = r_toCountry params,
                     q_toCurrency = r_toCurrency params,
                     q_toAmount = toFixed2 lib (fmul localAmount (fsub (Finite 1) totalFees)),
                     q_exchangeRate = exchangeRate,
                     q_totalFees = fmul totalFees (Finite 100),
                     q_estimatedTime = totalTime,
                     q_route = route\<rparr>)))))"

definition swapped_amount :: "js_lib \<Rightarrow> (nat \<Rightarrow> js_error + quote_data) \<Rightarrow> quote_request \<Rightarrow> number option" where
  \<comment> \<open>the settlement amount, in USDC, that the aggregator quoted for the request\<close>
  "swapped_amount lib http params =
     (case run_result (oneInch_getQuote
             (aggregator_request params (getWrappedStellarUSDC (r_fromChain params))) http) of
        Inl e \<Rightarrow> None
      | Inr q \<Rightarrow>
          map_option parseFloat_units6
            (bigNumberish lib (the (js_or (sq_toAmount q) (Some ''0'')))))"

section \<open>Delivery method registry (DeliveryMethodHandler)\<close>

text \<open>
  The registry entries with the fields that selection reads and the amounts and fees
  beside them; the per-field validation schemas are not part of the selection.  The
  fees are kept as the decimal literals of the source; nothing embedded here computes
  with them.
\<close>

record DeliveryMethod =
  dm_id :: string
  dm_name :: string
  dm_type :: string
  dm_countryCode :: string
  dm_currency :: string
  dm_minAmount :: nat
  dm_maxAmount :: nat
  dm_estimatedTime :: nat
  dm_fee_fixed :: rat
  dm_fee_percentage :: rat

definition deliveryMethods :: "DeliveryMethod list" where
  \<comment> \<open>the values of the registry \<open>Map\<close>, in insertion order\<close>
  "deliveryMethods =
    [\<lparr>dm_id = ''gcash_php'', dm_name = ''GCash'', dm_type = ''gcash'', dm_countryCode = ''PH'',
      dm_currency = ''PHP'', dm_minAmount = 100, dm_maxAmount = 500000, dm_estimatedTime = 1,
      dm_fee_fixed = 0, dm_fee_percentage = 0.5\<rparr>,
     \<lparr>dm_id = ''paymaya_php'', dm_name = ''PayMaya'', dm_type = ''paymaya'', dm_countryCode = ''PH'',
      dm_currency = ''PHP'', dm_minAmount = 100, dm_maxAmount = 500000, dm_estimatedTime = 1,
      dm_fee_fixed = 0, dm_fee_percentage = 0.5\<rparr>,
     \<lparr>dm_id = ''bank_ph'', dm_name = ''Bank Transfer'', dm_type = ''bank_transfer'', dm_countryCode = ''PH'',
      dm_currency = ''PHP'', dm_minAmount = 1000, dm_maxAmount = 1000000, dm_estimatedTime = 60,
      dm_fee_fixed = 50, dm_fee_percentage = 0.3\<rparr>,
     \<lparr>dm_id = ''mobile_money_ngn'', dm_name = ''Mobile Money'', dm_type = ''mobile_money'',
      dm_countryCode = ''NG'', dm_currency = ''NGN'', dm_minAmount = 1000, dm_maxAmount = 5000000,
      dm_estimatedTime = 5, dm_fee_fixed = 100, dm_fee_percentage = 0.6\<rparr>,
     \<lparr>dm_id = ''bank_ngn'', dm_name = ''Bank Transfer'', dm_type = ''bank_transfer'', dm_countryCode = ''NG'',
      dm_currency = ''NGN'', dm_minAmount = 5000, dm_maxAmount = 10000000, dm_estimatedTime = 120,
      dm_fee_fixed = 200, dm_fee_percentage = 0.4\<rparr>,
     \<lparr>dm_id = ''bank_ars'', dm_name = ''Bank Transfer'', dm_type = ''bank_transfer'', dm_countryCode = ''AR'',
      dm_currency = ''ARS'', dm_minAmount = 1000, dm_maxAmount = 5000000, dm_estimatedTime = 1440,
      dm_fee_fixed = 500, dm_fee_percentage = 0.7\<rparr>]"

definition getAvailableDeliveryMethods :: "string \<Rightarrow> string \<Rightarrow> DeliveryMethod list" where
  "getAvailableDeliveryMethods countryCode currency =
     filter (\<lambda>method. dm_countryCode method = countryCode \<and> dm_currency method = currency)
       deliveryMethods"


section \<open>Calls that leave the process\<close>

text \<open>
  What the outside world answers during one \<open>executeRemittance\<close> call is an argument of
  the model: the generated order id and the clock readings, and for each remote
  operation either the error it raises or the value it yields.  A response body is
  either absent or carries an optional \<open>id\<close>.
\<close>

datatype response_body = NoBody | Body "string option"

record exec_env =
  env_orderId :: string
  env_createdAt :: nat
  env_completedAt :: nat
  env_swap :: "js_error + unit"
  env_bridge_prepare :: "js_error option"
  env_bridge_submit :: "js_error + string"
  env_htlcId :: string
  env_sep6_info :: bool
  env_sep24_info :: "(string \<Rightarrow> bool) option"
  env_auth :: "js_error + string"
  env_withdraw :: "js_error + response_body"
  env_interactive :: "js_error + response_body"

type_synonym 'a outcome = "(js_error + 'a) \<times> engine_state"

definition then_do :: "'a outcome \<Rightarrow> ('a \<Rightarrow> engine_state \<Rightarrow> 'b outcome) \<Rightarrow> 'b outcome" where
  \<comment> \<open>sequencing of two awaited steps: a thrown error skips the rest\<close>
  "then_do r f = (case r of (Inl e, s) \<Rightarrow> (Inl e, s) | (Inr x, s) \<Rightarrow> f x s)"

definition throw :: "js_error \<Rightarrow> engine_state \<Rightarrow> 'a outcome" where
  "throw e s = (Inl e, s)"

definition return_value :: "'a \<Rightarrow> engine_state \<Rightarrow> 'a outcome" where
  "return_value x s = (Inr x, s)"


section \<open>Aggregator swap build and bridge (OneInchAggregator, StellarBridge)\<close>

definition buildSwapTx :: "exec_env \<Rightarrow> engine_state \<Rightarrow> unit outcome" where
  \<comment> \<open>every failure of the request is replaced by one fixed error\<close>
  "buildSwapTx env s =
     (let s1 = log_call SwapBuildCall s
      in case env_swap env of
           Inl e \<Rightarrow> throw (new_Error ''Failed to build swap transaction'') s1
         | Inr tx \<Rightarrow> return_value () s1)"

record htlc_result =
  h_htlcId :: string
  h_stellarTxHash :: string
  h_stellarAccount :: string

definition bridgeToStellar :: "exec_env \<Rightarrow> engine_state \<Rightarrow> htlc_result outcome" where
  \<comment> \<open>without a resolver key the call throws before it reaches the network; an error
      while loading the account, fetching the fee or building the transaction
      propagates as it is, an error of the submission is replaced.  Whether the
      preparation succeeds is the environment's answer \<open>env_bridge_prepare\<close>: the
      source builds the payment for the issuer placeholder \<open>CENTRE_ISSUER_ID\<close>, and an
      SDK that validates the issuer throws at that point (the case \<open>Some e\<close>)\<close>
  "bridgeToStellar env s =
     (case resolverKey s of
        None \<Rightarrow> throw (new_Error ''Resolver key not set'') s
      | Some stellarAccount \<Rightarrow>
          (let s1 = log_call BridgeCall s
           in case env_bridge_prepare env of
                Some e \<Rightarrow> throw e s1
              | None \<Rightarrow>
                  (case env_bridge_submit env of
                     Inl e \<Rightarrow> throw (new_Error ''Failed to bridge to Stellar'') s1
                   | Inr hash \<Rightarrow>
                       return_value
                         \<lparr>h_htlcId = env_htlcId env, h_stellarTxHash = hash,
                          h_stellarAccount = stellarAccount\<rparr> s1)))"


section \<open>Anchor clients (SEP6Service, SEP24Service, AnchorIntegrations)\<close>

definition anchorEndpoints :: "string list" where
  \<comment> \<open>the anchors for which the SEP services hold an endpoint\<close>
  "anchorEndpoints = [''CLICK_PHP'', ''COWRIE_NGN'', ''VIBRANT_USD'', ''SETTLE_EUR'']"

datatype protocol = Sep6 | Sep24

definition recommendProtocol :: "exec_env \<Rightarrow> string \<Rightarrow> string \<Rightarrow> engine_state \<Rightarrow> protocol \<times> engine_state" where
  \<comment> \<open>both capability requests go out together; a failed one counts as \<open>null\<close>\<close>
  "recommendProtocol env anchorCode assetCode s =
     (let known = (anchorCode \<in> set anchorEndpoints);
          s1 = (if known then log_call (Sep24InfoCall anchorCode) (log_call (Sep6InfoCall anchorCode) s)
                else s);
          sep6Info = (known \<and> env_sep6_info env);
          sep24Info = (if known then env_sep24_info env else None)
      in if sep6Info \<and> sep24Info = None then (Sep6, s1)
         else if \<not> sep6Info \<and> sep24Info \<noteq> None then (Sep24, s1)
         else if (case sep24Info of None \<Rightarrow> False | Some authRequired \<Rightarrow> authRequired assetCode)
         then (Sep24, s1)
         else (Sep6, s1))"

text \<open>
  There are two \<open>SEP6Service\<close> objects, the engine's own and the one inside
  \<open>AnchorIntegrations\<close>, each with its own token cache.
\<close>

datatype sep6_instance = EngineSep6 | IntegrationSep6

definition tokens_of :: "sep6_instance \<Rightarrow> engine_state \<Rightarrow> (string \<rightharpoonup> string)" where
  "tokens_of svc s = (case svc of EngineSep6 \<Rightarrow> sep6Tokens s | IntegrationSep6 \<Rightarrow> integrationTokens s)"

definition set_token :: "sep6_instance \<Rightarrow> string \<Rightarrow> string \<Rightarrow> engine_state \<Rightarrow> engine_state" where
  "set_token svc anchorCode token s =
     (case svc of
        EngineSep6 \<Rightarrow> s\<lparr>sep6Tokens := (sep6Tokens s)(anchorCode \<mapsto> token)\<rparr>
      | IntegrationSep6 \<Rightarrow> s\<lparr>integrationTokens := (integrationTokens s)(anchorCode \<mapsto> token)\<rparr>)"

definition authenticate :: "sep6_instance \<Rightarrow> exec_env \<Rightarrow> string \<Rightarrow> engine_state \<Rightarrow> string outcome" where
  "authenticate svc env anchorCode s =
     (if anchorCode \<notin> set anchorEndpoints then throw (new_Error (''Unknown anchor: '' @ anchorCode)) s
      else (let s1 = log_call (AuthCall anchorCode) s
            in case env_auth env of
                 Inl e \<Rightarrow> throw (new_Error ''Authentication failed'') s1
               | Inr token \<Rightarrow> return_value token (set_token svc anchorCode token s1)))"

record withdraw_params =
  wp_anchorCode :: string
  wp_type :: "string option"
  wp_bank_account :: bool
  wp_mobile_money :: bool
  wp_gcash :: bool
  wp_paymaya :: bool

definition failure_text :: "js_error \<Rightarrow> string" where
  \<comment> \<open>\<open>error.response?.data?.error || error.message\<close>\<close>
  "failure_text e =
     (if truthy (response_field resp_error e) then the (response_field resp_error e)
      else err_message e)"

definition withdraw :: "sep6_instance \<Rightarrow> exec_env \<Rightarrow> withdraw_params \<Rightarrow> engine_state \<Rightarrow> response_body outcome" where
  "withdraw svc env params s =
     (if wp_anchorCode params \<notin> set anchorEndpoints
      then throw (new_Error (''Unknown anchor: '' @ wp_anchorCode params)) s
      else if \<not> truthy (tokens_of svc s (wp_anchorCode params))
      then throw (new_Error ''Not authenticated'') s
      else if wp_type params = Some ''bank_account'' \<and> \<not> wp_bank_account params
      then throw (new_Error ''Bank account details required'') s
      else if wp_type params = Some ''mobile_money'' \<and> \<not> wp_mobile_money params
      then throw (new_Error ''Mobile money details required'') s
      else if wp_type params = Some ''gcash'' \<and> \<not> wp_gcash params
      then throw (new_Error ''GCash details required'') s
      else if wp_type params = Some ''paymaya'' \<and> \<not> wp_paymaya params
      then throw (new_Error ''PayMaya details required'') s
      else (let s1 = log_call (WithdrawCall (wp_anchorCode params)) s
            in case env_withdraw env of
                 Inl e \<Rightarrow> throw (new_Error (''Withdrawal failed: '' @ failure_text e)) s1
               | Inr body \<Rightarrow> return_value body s1))"

definition initiateWithdraw :: "exec_env \<Rightarrow> string \<Rightarrow> engine_state \<Rightarrow> response_body outcome" where
  "initiateWithdraw env anchorCode s =
     (if anchorCode \<notin> set anchorEndpoints then throw (new_Error (''Unknown anchor: '' @ anchorCode)) s
      else (let s1 = log_call (InteractiveWithdrawCall anchorCode) s
            in case env_interactive env of
                 Inl e \<Rightarrow> throw (new_Error (''Interactive withdrawal failed: '' @ failure_text e)) s1
               | Inr body \<Rightarrow> return_value body s1))"

definition clickPhilippinesIntegration :: "exec_env \<Rightarrow> string option \<Rightarrow> engine_state \<Rightarrow> response_body outcome" where
  "clickPhilippinesIntegration env deliveryMethod s =
     then_do (authenticate IntegrationSep6 env ''CLICK_PHP'' s) (\<lambda>token.
       withdraw IntegrationSep6 env
         \<lparr>wp_anchorCode = ''CLICK_PHP'', wp_type = deliveryMethod, wp_bank_account = False,
          wp_mobile_money = False, wp_gcash = False, wp_paymaya = False\<rparr>)"

definition cowrieNigeriaIntegration :: "exec_env \<Rightarrow> string option \<Rightarrow> engine_state \<Rightarrow> response_body outcome" where
  "cowrieNigeriaIntegration env deliveryMethod s =
     withdraw IntegrationSep6 env
       \<lparr>wp_anchorCode = ''COWRIE_NGN'', wp_type = deliveryMethod, wp_bank_account = False,
        wp_mobile_money = False, wp_gcash = False, wp_paymaya = False\<rparr> s"


section \<open>Order execution (RemittanceEngine.executeRemittance)\<close>

definition selectedMethod :: "RemittanceQuote \<Rightarrow> recipient_details \<Rightarrow> DeliveryMethod option" where
  \<comment> \<open>\<open>deliveryMethods.find(m => m.type === recipientDetails.deliveryMethod)\<close> over the
      registry entries for the quote's destination country and currency\<close>
  "selectedMethod quote recipientDetails =
     find (\<lambda>m. Some (dm_type m) = rd_deliveryMethod recipientDetails)
       (getAvailableDeliveryMethods (q_toCountry quote) (q_toCurrency quote))"

definition processSEP6Withdrawal ::
  "exec_env \<Rightarrow> string \<Rightarrow> RemittanceQuote \<Rightarrow> recipient_details \<Rightarrow> engine_state \<Rightarrow> response_body outcome" where
  "processSEP6Withdrawal env anchorCode quote recipientDetails s =
     (case selectedMethod quote recipientDetails of
        None \<Rightarrow> throw (new_Error ''Invalid delivery method'') s
      | Some m \<Rightarrow>
          if anchorCode = ''CLICK_PHP'' then
            clickPhilippinesIntegration env (rd_deliveryMethod recipientDetails) s
          else if anchorCode = ''COWRIE_NGN'' then
            cowrieNigeriaIntegration env (rd_deliveryMethod recipientDetails) s
          else
            then_do (authenticate EngineSep6 env anchorCode s) (\<lambda>token.
              withdraw EngineSep6 env
                \<lparr>wp_anchorCode = anchorCode,
                 wp_type = rd_deliveryMethod recipientDetails,
                 wp_bank_account = (rd_deliveryMethod recipientDetails = Some ''bank_transfer''),
                 wp_mobile_money = (rd_deliveryMethod recipientDetails = Some ''mobile_money''),
                 wp_gcash = (rd_deliveryMethod recipientDetails = Some ''gcash''),
                 wp_paymaya = False\<rparr>))"

definition processSEP24Withdrawal :: "exec_env \<Rightarrow> string \<Rightarrow> engine_state \<Rightarrow> response_body outcome" where
  "processSEP24Withdrawal env anchorCode s = initiateWithdraw env anchorCode s"

definition recordOrder :: "string \<Rightarrow> engine_state \<Rightarrow> engine_state" where
  \<comment> \<open>the metrics collector keeps the order; its aggregates are not modelled\<close>
  "recordOrder orderId s = s\<lparr>metricsOrders := metricsOrders s @ [orderId]\<rparr>"

definition read_id :: "response_body \<Rightarrow> engine_state \<Rightarrow> (string option) outcome" where
  \<comment> \<open>\<open>withdrawResult.id\<close>; reading a property of an absent body raises a \<open>TypeError\<close>\<close>
  "read_id body s =
     (case body of
        NoBody \<Rightarrow>
          throw \<lparr>err_name = ''TypeError'', err_message = ''Cannot read properties of undefined'',
                 err_code = None, err_response = None\<rparr> s
      | Body i \<Rightarrow> return_value i s)"

definition withdrawal_stage ::
  "exec_env \<Rightarrow> RemittanceQuote \<Rightarrow> recipient_details \<Rightarrow> engine_state \<Rightarrow> (string option) outcome" where
  \<comment> \<open>steps 3 and 4 of the \<open>try\<close> block: the anchor is resolved again, the protocol
      is chosen, the withdrawal is made and the payout id is read off its result\<close>
  "withdrawal_stage env quote recipientDetails s =
     (case getAnchorForCorridor ''US'' (q_toCountry quote) (q_toCurrency quote) of
        None \<Rightarrow> throw (new_Error ''No anchor available for this corridor'') s
      | Some anchor \<Rightarrow>
          (let chosen = recommendProtocol env (a_code anchor) (q_toCurrency quote) s
           in then_do
                (if fst chosen = Sep6
                 then processSEP6Withdrawal env (a_code anchor) quote recipientDetails (snd chosen)
                 else processSEP24Withdrawal env (a_code anchor) (snd chosen))
                read_id))"

definition run_pipeline ::
  "exec_env \<Rightarrow> RemittanceQuote \<Rightarrow> string \<Rightarrow> recipient_details \<Rightarrow> engine_state \<Rightarrow> (string option) outcome" where
  \<comment> \<open>the stages inside the \<open>try\<close> block, up to the reading of the payout id\<close>
  "run_pipeline env quote senderAddress recipientDetails s =
     (if getWrappedStellarUSDC (q_fromChain quote) = Undefined then
        throw (new_Error (''Wrapped Stellar USDC not available on '' @ q_fromChain quote)) s
      else
          then_do (buildSwapTx env s) (\<lambda>swapTx s1.
          then_do (bridgeToStellar env s1) (\<lambda>htlcResult s2.
            withdrawal_stage env quote recipientDetails
              (modify_order (env_orderId env)
                 (\<lambda>ord. ord\<lparr>o_htlcId := Some (h_htlcId htlcResult),
                            o_stellarTxHash := Some (h_stellarTxHash htlcResult)\<rparr>) s2))))"

definition new_order :: "exec_env \<Rightarrow> RemittanceQuote \<Rightarrow> string \<Rightarrow> recipient_details \<Rightarrow> RemittanceOrder" where
  "new_order env quote senderAddress recipientDetails =
     \<lparr>o_id = env_orderId env,
      o_sender_address = senderAddress,
      o_sender_chain = q_fromChain quote,
      o_recipient_name = rd_name recipientDetails,
      o_recipient_country = q_toCountry quote,
      o_recipient_currency = q_toCurrency quote,
      o_accountDetails = recipientDetails,
      o_quote = quote,
      o_status = Pending,
      o_htlcId = None, o_stellarTxHash = None, o_anchorTxId = None,
      o_createdAt = env_createdAt env,
      o_completedAt = None\<rparr>"

definition begin_order :: "exec_env \<Rightarrow> RemittanceQuote \<Rightarrow> string \<Rightarrow> recipient_details \<Rightarrow> engine_state \<Rightarrow> engine_state" where
  \<comment> \<open>the order is created and saved as pending, then set to processing on entering the
      \<open>try\<close> block, both on the object and through the repository\<close>
  "begin_order env quote senderAddress recipientDetails s =
     (let s1 = save (new_order env quote senderAddress recipientDetails) s;
          s2 = modify_order (env_orderId env) (\<lambda>ord. ord\<lparr>o_status := Processing\<rparr>) s1
      in updateStatus (env_orderId env) Processing id s2)"

definition executeRemittance ::
  "exec_env \<Rightarrow> RemittanceQuote \<Rightarrow> string \<Rightarrow> recipient_details \<Rightarrow> engine_state \<Rightarrow> RemittanceOrder outcome" where
  "executeRemittance env quote senderAddress recipientDetails s =
     (let orderId = env_orderId env
      in case run_pipeline env quote senderAddress recipientDetails
                (begin_order env quote senderAddress recipientDetails s) of
           (Inr anchorTxId, s4) \<Rightarrow>
             (let s5 = modify_order orderId
                         (\<lambda>ord. ord\<lparr>o_anchorTxId := anchorTxId, o_status := Completed,
                                    o_completedAt := Some (env_completedAt env)\<rparr>) s4;
                  s6 = updateStatus orderId Completed
                         (\<lambda>ord. ord\<lparr>o_anchorTxId := anchorTxId,
                                    o_completedAt := Some (env_completedAt env)\<rparr>) s5;
                  s7 = recordOrder orderId s6
              in (Inr (the (orders s7 orderId)), s7))
         | (Inl error, s4) \<Rightarrow>
             (let handled = handleDeliveryError orderId error s4;
                  s6 = modify_order orderId (\<lambda>ord. ord\<lparr>o_status := Failed\<rparr>) (snd handled)
              in (Inl (new_Error (getUserFriendlyMessage (fst handled))), s6)))"


section \<open>Reading the result of an execution\<close>

definition final_status :: "RemittanceOrder outcome \<Rightarrow> string \<Rightarrow> order_status option" where
  \<comment> \<open>the status of the order with the given id once the call is over\<close>
  "final_status r orderId = map_option o_status (orders (snd r) orderId)"


section \<open>The classification rules as the specification lists them\<close>

text \<open>
  The specification gives the classifier as ten rules tried in order, the first rule
  that applies deciding the kind, the retryable flag and the resolution estimate.  A
  rule reads the message text (\<open>error.message\<close>, or the error's string form when the
  message is empty) and a machine code.  The rules on an anchor's answer (1, 2, 3, 6, 7)
  take the machine code from \<open>error.code\<close> or else from the response body; the rules on
  a transport failure (5, 8, 9) take it from \<open>error.code\<close>.
\<close>

record class_rule =
  rule_applies :: "js_error \<Rightarrow> bool"
  rule_kind :: DeliveryErrorType
  rule_retryable :: bool
  rule_resolution :: "nat option"

definition message_contains :: "string \<Rightarrow> js_error \<Rightarrow> bool" where
  "message_contains p e = str_includes (errorMessage e) p"

definition code_is :: "string \<Rightarrow> js_error \<Rightarrow> bool" where
  "code_is c e = (errorCode e = Some c)"

definition transport_code_is :: "string \<Rightarrow> js_error \<Rightarrow> bool" where
  "transport_code_is c e = (err_code e = Some c)"

definition transport_code_prefix :: "string \<Rightarrow> js_error \<Rightarrow> bool" where
  "transport_code_prefix p e = (case err_code e of None \<Rightarrow> False | Some c \<Rightarrow> c \<noteq> [] \<and> prefix p c)"

definition classification_rules :: "class_rule list" where
  "classification_rules =
    [\<lparr>rule_applies = (\<lambda>e. message_contains ''insufficient'' e \<or> code_is ''INSUFFICIENT_BALANCE'' e),
      rule_kind = INSUFFICIENT_FUNDS, rule_retryable = True, rule_resolution = Some 15\<rparr>,
     \<lparr>rule_applies = (\<lambda>e. message_contains ''invalid recipient'' e \<or> code_is ''INVALID_DEST'' e),
      rule_kind = INVALID_RECIPIENT, rule_retryable = False, rule_resolution = None\<rparr>,
     \<lparr>rule_applies = (\<lambda>e. message_contains ''KYC'' e \<or> code_is ''NEEDS_INFO'' e),
      rule_kind = KYC_REQUIRED, rule_retryable = False, rule_resolution = None\<rparr>,
     \<lparr>rule_applies = (\<lambda>e. message_contains ''compliance'' e \<or> message_contains ''blocked'' e),
      rule_kind = COMPLIANCE_BLOCKED, rule_retryable = False, rule_resolution = None\<rparr>,
     \<lparr>rule_applies = (\<lambda>e. transport_code_is ''ECONNREFUSED'' e \<or> transport_code_is ''ENOTFOUND'' e),
      rule_kind = ANCHOR_UNAVAILABLE, rule_retryable = True, rule_resolution = Some 30\<rparr>,
     \<lparr>rule_applies = (\<lambda>e. message_contains ''rate expired'' e \<or> code_is ''RATE_EXPIRED'' e),
      rule_kind = RATE_EXPIRED, rule_retryable = True, rule_resolution = None\<rparr>,
     \<lparr>rule_applies = (\<lambda>e. message_contains ''limit exceeded'' e \<or> code_is ''LIMIT_EXCEEDED'' e),
      rule_kind = LIMIT_EXCEEDED, rule_retryable = False, rule_resolution = None\<rparr>,
     \<lparr>rule_applies = (\<lambda>e. transport_code_is ''ETIMEDOUT'' e \<or> transport_code_is ''ECONNABORTED'' e),
      rule_kind = TIMEOUT, rule_retryable = True, rule_resolution = Some 5\<rparr>,
     \<lparr>rule_applies = transport_code_prefix ''E'',
      rule_kind = NETWORK_ERROR, rule_retryable = True, rule_resolution = Some 10\<rparr>,
     \<lparr>rule_applies = (\<lambda>e. True),
      rule_kind = TECHNICAL_ERROR, rule_retryable = True, rule_resolution = Some 60\<rparr>]"

fun first_match :: "class_rule list \<Rightarrow> js_error \<Rightarrow> class_rule option" where
  "first_match [] e = None"
| "first_match (r # rs) e = (if rule_applies r e then Some r else first_match rs e)"

definition outcome_of :: "class_rule \<Rightarrow> DeliveryErrorType \<times> bool \<times> nat option" where
  "outcome_of r = (rule_kind r, rule_retryable r, rule_resolution r)"


section \<open>Runs of the retry scheduler\<close>

definition after_error :: "string \<Rightarrow> js_error \<Rightarrow> engine_state \<Rightarrow> engine_state" where
  \<comment> \<open>the state that \<open>handleDeliveryError\<close> leaves\<close>
  "after_error orderId e s = snd (handleDeliveryError orderId e s)"

definition error_then_retry :: "string \<Rightarrow> js_error \<Rightarrow> engine_state \<Rightarrow> engine_state" where
  \<comment> \<open>an error is handled and the timer it scheduled, if any, elapses\<close>
  "error_then_retry orderId e s = retry_fires orderId (after_error orderId e s)"

definition scheduled_delay :: "engine_state \<Rightarrow> string \<Rightarrow> nat option" where
  "scheduled_delay s orderId = map_option t_delay (retryQueues s orderId)"


section \<open>The net destination amount as the specification states it\<close>



section \<open>Concrete inputs\<close>

definition sample_error :: js_error where
  \<comment> \<open>a refused connection whose message also mentions insufficient funds\<close>
  "sample_error =
     \<lparr>err_name = ''Error'', err_message = ''Withdrawal failed: insufficient balance'',
      err_code = Some ''ECONNREFUSED'', err_response = None\<rparr>"

definition rate_error :: js_error where
  "rate_error = new_Error ''Withdrawal failed: rate expired''"

definition kyc_error :: js_error where
  "kyc_error = new_Error ''Withdrawal failed: KYC incomplete''"

definition technical_error :: js_error where
  "technical_error = new_Error ''Failed to build swap transaction''"

definition quote_params :: SwapParams where
  "quote_params =
     \<lparr>sp_fromChain = Number (Finite 1), sp_fromToken = ''0xA0b86991c6218b36c1d19D4a2e9Eb0cE3606eB48'',
      sp_toToken = ''0xA0b86991c6218b36c1d19D4a2e9Eb0cE3606eB48'', sp_amount = ''100000000'',
      sp_fromAddress = ''0x0000000000000000000000000000000000000000'', sp_slippage = 1\<rparr>"

definition refused_error :: js_error where
  "refused_error =
     \<lparr>err_name = ''AxiosError'', err_message = ''connect ECONNREFUSED'',
      err_code = Some ''ECONNREFUSED'', err_response = None\<rparr>"

definition not_found_error :: js_error where
  "not_found_error =
     \<lparr>err_name = ''AxiosError'', err_message = ''Request failed with status code 404'',
      err_code = Some ''ERR_BAD_REQUEST'',
      err_response = Some \<lparr>resp_status = 404, resp_description = None, resp_message = None,
        resp_error = None, resp_error_code = None, resp_required_info = None,
        resp_limits = None\<rparr>\<rparr>"

definition service_down :: "nat \<Rightarrow> js_error + quote_data" where
  \<comment> \<open>every request is refused\<close>
  "service_down attempt = Inl refused_error"

definition refused_then_404 :: "nat \<Rightarrow> js_error + quote_data" where
  \<comment> \<open>the first request is refused, the following ones are answered 404\<close>
  "refused_then_404 attempt = (if attempt = 0 then Inl refused_error else Inl not_found_error)"

definition digit_value :: "char \<Rightarrow> int option" where
  "digit_value c = map_of (zip ''0123456789'' [0, 1, 2, 3, 4, 5, 6, 7, 8, 9]) c"

fun read_digits :: "int \<Rightarrow> string \<Rightarrow> int option" where
  "read_digits acc [] = Some acc"
| "read_digits acc (c # cs) =
     (case digit_value c of None \<Rightarrow> None | Some d \<Rightarrow> read_digits (10 * acc + d) cs)"

definition read_decimal :: "string \<Rightarrow> int option" where
  \<comment> \<open>a non-empty run of decimal digits, with an optional minus sign in front\<close>
  "read_decimal s =
     (case s of
        [] \<Rightarrow> None
      | c # cs \<Rightarrow>
          if c = CHR ''-'' then (if cs = [] then None else map_option uminus (read_digits 0 cs))
          else read_digits 0 s)"

definition small_number_text :: "number \<Rightarrow> string" where
  \<comment> \<open>the text of a whole number from 0 up, which is all the samples convert\<close>
  "small_number_text v = (case v of Finite x \<Rightarrow> show_nat (nat \<lfloor>x\<rfloor>) | _ \<Rightarrow> ''NaN'')"

definition sample_lib :: js_lib where
  \<comment> \<open>the library on decimal amounts and whole numbers; the sample amounts stay below
      \<open>10^21\<close>, where \<open>toFixed\<close> does not consult \<open>numberToString\<close>.  The texts of the
      inherited values are those that Node prints.\<close>
  "sample_lib =
     \<lparr>bigNumberish = read_decimal, numberToString = small_number_text,
      builtinText = (\<lambda>k. if k = ''__proto__'' then ''[object Object]''
                         else ''function '' @ (if k = ''constructor'' then ''Object'' else k) @
                              ''() { [native code] }'')\<rparr>"

definition sample_request :: quote_request where
  \<comment> \<open>100 USDC from Ethereum to the Philippines, paid out over GCash\<close>
  "sample_request =
     \<lparr>r_fromChain = ''ethereum'', r_fromToken = ''0xA0b86991c6218b36c1d19D4a2e9Eb0cE3606eB48'',
      r_fromAmount = ''100000000'', r_toCountry = ''Philippines'', r_toCurrency = ''PHP'',
      r_deliveryMethod = Some ''gcash''\<rparr>"

definition quote_answer :: "nat \<Rightarrow> js_error + quote_data" where
  \<comment> \<open>the aggregator quotes 100 USDC (6 decimals) at the first request\<close>
  "quote_answer attempt =
     Inr \<lparr>data_dstAmount = Some ''100000000'', data_toAmount = None, data_gas = Some ''150000'',
          data_estimatedGas = None\<rparr>"

definition sample_quote :: RemittanceQuote where
  \<comment> \<open>the quote for the sample request; the fee fractions are the doubles of 0.003,
      0.001 and 0.005, the total is the double 0.9000000000000001\<close>
  "sample_quote =
     \<lparr>q_fromChain = ''ethereum'',
      q_fromToken = ''0xA0b86991c6218b36c1d19D4a2e9Eb0cE3606eB48'',
      q_fromAmount = ''100000000'', q_toCountry = ''Philippines'',
      q_toCurrency = ''PHP'', q_toAmount = ''5599.15'',
      q_exchangeRate = Finite (113 / 2),
      q_totalFees = Finite (4053239664633447 / 4503599627370496),
      q_estimatedTime = Number (Finite 4),
      q_route =
        [\<lparr>step_type = Swap,
          step_from = ''ethereum:0xA0b86991c6218b36c1d19D4a2e9Eb0cE3606eB48'',
          step_to = ''ethereum:USDC'', step_protocol = ''1inch'',
          step_fees = Finite (3458764513820541 / 1152921504606846976),
          step_estimatedTime = Number (Finite 1)\<rparr>,
         \<lparr>step_type = Bridge, step_from = ''ethereum:USDC'',
          step_to = ''stellar:USDC'', step_protocol = ''HTLC'',
          step_fees = Finite (1152921504606847 / 1152921504606846976),
          step_estimatedTime = Number (Finite 2)\<rparr>,
         \<lparr>step_type = Anchor, step_from = ''stellar:USDC'',
          step_to = ''bank:PHP'', step_protocol = ''CLICK_PHP'',
          step_fees = Finite (5764607523034235 / 1152921504606846976),
          step_estimatedTime = Number (Finite 1)\<rparr>]\<rparr>"

definition constructor_request :: quote_request where
  \<comment> \<open>the sample request with a delivery method that names an inherited property\<close>
  "constructor_request = sample_request\<lparr>r_deliveryMethod := Some ''constructor''\<rparr>"

definition constructor_quote :: RemittanceQuote where
  "constructor_quote =
     sample_quote
       \<lparr>q_estimatedTime := Text ''3function Object() { [native code] }'',
        q_route := [q_route sample_quote ! 0, q_route sample_quote ! 1,
                    (q_route sample_quote ! 2)\<lparr>step_estimatedTime := Builtin ''constructor''\<rparr>]\<rparr>"

definition ten_usdc_answer :: "nat \<Rightarrow> js_error + quote_data" where
  \<comment> \<open>the aggregator quotes 10 USDC at the first request\<close>
  "ten_usdc_answer attempt =
     Inr \<lparr>data_dstAmount = Some ''10000000'', data_toAmount = None, data_gas = Some ''150000'',
          data_estimatedGas = None\<rparr>"

definition ready_state :: engine_state where
  \<comment> \<open>a fresh engine whose bridge has been given a resolver key\<close>
  "ready_state = initial_state\<lparr>resolverKey := Some ''GRESOLVERACCOUNT''\<rparr>"

definition reply_ok :: exec_env where
  \<comment> \<open>every remote operation succeeds; the anchor offers both protocols and asks for
      authentication on the interactive one\<close>
  "reply_ok =
     \<lparr>env_orderId = ''RMT-1'', env_createdAt = 1000, env_completedAt = 2000,
      env_swap = Inr (), env_bridge_prepare = None, env_bridge_submit = Inr ''stellar-hash'',
      env_htlcId = ''HTLC-1'', env_sep6_info = True, env_sep24_info = Some (\<lambda>asset. True),
      env_auth = Inr ''jwt'', env_withdraw = Inr (Body (Some ''W-1'')),
      env_interactive = Inr (Body (Some ''I-1''))\<rparr>"

definition reply_sep6 :: exec_env where
  \<comment> \<open>as before, but the anchor offers the programmatic protocol only\<close>
  "reply_sep6 = reply_ok\<lparr>env_sep24_info := None\<rparr>"

definition insufficient_error :: js_error where
  "insufficient_error =
     \<lparr>err_name = ''AxiosError'', err_message = ''Request failed with status code 400'',
      err_code = Some ''ERR_BAD_REQUEST'',
      err_response = Some \<lparr>resp_status = 400, resp_description = None, resp_message = None,
        resp_error = Some ''insufficient liquidity'', resp_error_code = None,
        resp_required_info = None, resp_limits = None\<rparr>\<rparr>"

definition reply_insufficient :: exec_env where
  \<comment> \<open>the interactive withdrawal is refused for lack of liquidity\<close>
  "reply_insufficient = reply_ok\<lparr>env_interactive := Inl insufficient_error\<rparr>"

definition ph_quote :: RemittanceQuote where
  \<comment> \<open>the sample quote with the destination given as a country code\<close>
  "ph_quote = sample_quote\<lparr>q_toCountry := ''PH''\<rparr>"

definition recipient_gcash :: recipient_details where
  "recipient_gcash = \<lparr>rd_name = ''Juan Dela Cruz'', rd_deliveryMethod = Some ''gcash''\<rparr>"

definition recipient_teleport :: recipient_details where
  \<comment> \<open>a delivery method that no registry entry has\<close>
  "recipient_teleport = \<lparr>rd_name = ''Juan Dela Cruz'', rd_deliveryMethod = Some ''teleport''\<rparr>"

definition completed_order :: RemittanceOrder where
  \<comment> \<open>the order that the successful sample execution returns\<close>
  "completed_order =
     \<lparr>o_id = ''RMT-1'', o_sender_address = ''0xSender'', o_sender_chain = ''ethereum'',
      o_recipient_name = ''Juan Dela Cruz'', o_recipient_country = ''Philippines'',
      o_recipient_currency = ''PHP'', o_accountDetails = recipient_gcash, o_quote = sample_quote,
      o_status = Completed, o_htlcId = Some ''HTLC-1'', o_stellarTxHash = Some ''stellar-hash'',
      o_anchorTxId = Some ''I-1'', o_createdAt = 1000, o_completedAt = Some 2000\<rparr>"


section \<open>Properties of the classifier\<close>

lemma str_includes_sublist: "str_includes s p \<longleftrightarrow> sublist p s"
  by (induction s) (auto simp add: sublist_Cons_right)

lemma includes_nonempty: "str_includes s p \<Longrightarrow> p \<noteq> [] \<Longrightarrow> s \<noteq> []"
  by (cases s) auto

lemma errorMessage_eq: "err_message e \<noteq> [] \<Longrightarrow> errorMessage e = err_message e"
  by (simp add: errorMessage_def)

lemma insufficient_first:
  assumes "str_includes (err_message e) ''insufficient''"
  shows "d_type (classifyError e) = INSUFFICIENT_FUNDS"
proof -
  have "err_message e \<noteq> []"
    using assms includes_nonempty by fastforce
  then have "str_includes (errorMessage e) ''insufficient''"
    using assms by (simp add: errorMessage_eq)
  then show ?thesis
    by (simp add: classifyError_def)
qed

lemma classify_first_match:
  "map_option outcome_of (first_match classification_rules e) =
     Some (d_type (classifyError e), d_retryable (classifyError e),
           d_estimatedResolution (classifyError e))"
  by (auto simp add: classification_rules_def classifyError_def outcome_of_def
      message_contains_def code_is_def transport_code_is_def transport_code_prefix_def
      truthy_def startsWith_def split: option.splits)

text \<open>
  Claim C2.  \<open>classifyError\<close> is the first-match evaluation of the ten rules in the
  order of the specification: the kind, the retryable flag and the resolution estimate
  it returns are those of the first rule of \<open>classification_rules\<close> that applies.  In
  particular an error whose message contains "insufficient" and whose code is
  \<open>ECONNREFUSED\<close> is classified \<open>INSUFFICIENT_FUNDS\<close> (rule 1), not
  \<open>ANCHOR_UNAVAILABLE\<close> (rule 5) or \<open>NETWORK_ERROR\<close> (rule 9).
\<close>

theorem classify_priority_order:
  "length classification_rules = 10 \<and>
   map_option outcome_of (first_match classification_rules e) =
     Some (d_type (classifyError e), d_retryable (classifyError e),
           d_estimatedResolution (classifyError e)) \<and>
   (str_includes (err_message e) ''insufficient'' \<and> err_code e = Some ''ECONNREFUSED''
      \<longrightarrow> d_type (classifyError e) = INSUFFICIENT_FUNDS)"
  using classify_first_match insufficient_first
  by (simp add: classification_rules_def)

theorem classify_priority_order_witness:
  "str_includes (err_message sample_error) ''insufficient'' \<and>
   err_code sample_error = Some ''ECONNREFUSED'' \<and>
   d_type (classifyError sample_error) = INSUFFICIENT_FUNDS \<and>
   map_option outcome_of (first_match classification_rules sample_error) =
     Some (INSUFFICIENT_FUNDS, True, Some 15)"
proof -
  have a: "str_includes (err_message sample_error) ''insufficient''"
    by (simp add: sample_error_def)
  have b: "err_code sample_error = Some ''ECONNREFUSED''"
    by (simp add: sample_error_def)
  have c: "d_retryable (classifyError sample_error)"
    "d_estimatedResolution (classifyError sample_error) = Some 15"
    by (simp_all add: classifyError_def sample_error_def errorMessage_def)
  from classify_priority_order [of sample_error] a b c show ?thesis
    by auto
qed


section \<open>Properties of the retry scheduler\<close>

lemma updateStatus_fields [simp]:
  "retryQueues (updateStatus oid st f s) = retryQueues s"
  "retryAttempts (updateStatus oid st f s) = retryAttempts s"
  "emitted (updateStatus oid st f s) = emitted s"
  "calls (updateStatus oid st f s) = calls s"
  by (simp_all add: updateStatus_def split: option.splits)

lemma emit_fields [simp]:
  "retryQueues (emit ev s) = retryQueues s"
  "retryAttempts (emit ev s) = retryAttempts s"
  "emitted (emit ev s) = emitted s @ [ev]"
  "calls (emit ev s) = calls s"
  "orders (emit ev s) = orders s"
  by (simp_all add: emit_def)

lemma attempts_of_unchanged [simp]:
  "attempts_of (emit ev s) oid = attempts_of s oid"
  "attempts_of (updateStatus oid' st f s) oid = attempts_of s oid"
  by (simp_all add: attempts_of_def)

lemma after_error_retryable:
  assumes "d_retryable (classifyError e)"
  shows "after_error oid e s =
     scheduleRetry oid (classifyError e)
       (emit (DeliveryErrorEvent oid (classifyError e)) (updateStatus oid Failed id s))"
  using assms by (simp add: after_error_def handleDeliveryError_def Let_def)

lemma after_error_final:
  assumes "\<not> d_retryable (classifyError e)"
  shows "after_error oid e s =
     handleNonRetryableError oid (classifyError e)
       (emit (DeliveryErrorEvent oid (classifyError e)) (updateStatus oid Failed id s))"
  using assms by (simp add: after_error_def handleDeliveryError_def Let_def)

lemma scheduleRetry_pending:
  assumes "attempts_of s oid < maxAttempts (getRetryPolicy (d_type d))"
  shows "retryQueues (scheduleRetry oid d s) oid =
           Some \<lparr>t_delay = retry_delay (getRetryPolicy (d_type d)) (attempts_of s oid),
                 t_attempts = attempts_of s oid,
                 t_maxAttempts = maxAttempts (getRetryPolicy (d_type d))\<rparr>"
    and "retryAttempts (scheduleRetry oid d s) = retryAttempts s"
    and "emitted (scheduleRetry oid d s) = emitted s"
  using assms by (simp_all add: scheduleRetry_def Let_def)

lemma scheduleRetry_exhausted:
  assumes "maxAttempts (getRetryPolicy (d_type d)) \<le> attempts_of s oid"
  shows "retryQueues (scheduleRetry oid d s) = retryQueues s"
    and "retryAttempts (scheduleRetry oid d s) = (retryAttempts s)(oid := None)"
    and "emitted (scheduleRetry oid d s) = emitted s @
           [ManualReviewRequiredEvent oid ''Max retries exceeded'' d,
            UserNotificationEvent oid ''delivery_delayed''
              (''Your transaction is being reviewed. We'' @ [CHR 0x27] @ ''ll update you within 24 hours.'')
              ''warning'']"
  using assms by (simp_all add: scheduleRetry_def handleMaxRetriesExceeded_def Let_def)

lemma classify_retryable_kinds:
  "d_retryable (classifyError e) \<longleftrightarrow>
     d_type (classifyError e) \<notin> {INVALID_RECIPIENT, KYC_REQUIRED, COMPLIANCE_BLOCKED, LIMIT_EXCEEDED}"
  by (simp add: classifyError_def)

lemma retry_fires_pending:
  assumes "retryQueues s oid = Some t"
  shows "retryQueues (retry_fires oid s) oid = None"
    and "attempts_of (retry_fires oid s) oid = t_attempts t + 1"
    and "emitted (retry_fires oid s) =
           emitted s @ [DeliveryRetryEvent oid (t_attempts t + 1) (t_maxAttempts t)]"
  using assms by (simp_all add: retry_fires_def attempts_of_def)

lemma retry_then_next:
  assumes "d_retryable (classifyError e)"
    and "attempts_of s oid < maxAttempts (getRetryPolicy (d_type (classifyError e)))"
  shows "scheduled_delay (after_error oid e s) oid =
           Some (retry_delay (getRetryPolicy (d_type (classifyError e))) (attempts_of s oid))"
    and "retryQueues (error_then_retry oid e s) oid = None"
    and "attempts_of (error_then_retry oid e s) oid = attempts_of s oid + 1"
proof -
  let ?s' = "emit (DeliveryErrorEvent oid (classifyError e)) (updateStatus oid Failed id s)"
  have a: "attempts_of ?s' oid < maxAttempts (getRetryPolicy (d_type (classifyError e)))"
    using assms(2) by simp
  have q: "retryQueues (after_error oid e s) oid =
      Some \<lparr>t_delay = retry_delay (getRetryPolicy (d_type (classifyError e))) (attempts_of s oid),
            t_attempts = attempts_of s oid,
            t_maxAttempts = maxAttempts (getRetryPolicy (d_type (classifyError e)))\<rparr>"
    using scheduleRetry_pending(1) [OF a] assms(1) by (simp add: after_error_retryable)
  show "scheduled_delay (after_error oid e s) oid =
           Some (retry_delay (getRetryPolicy (d_type (classifyError e))) (attempts_of s oid))"
    using q by (simp add: scheduled_delay_def)
  show "retryQueues (error_then_retry oid e s) oid = None"
    using retry_fires_pending(1) [OF q] by (simp add: error_then_retry_def)
  show "attempts_of (error_then_retry oid e s) oid = attempts_of s oid + 1"
    using retry_fires_pending(2) [OF q] by (simp add: error_then_retry_def)
qed

lemma retries_exhausted:
  assumes "d_retryable (classifyError e)"
    and "maxAttempts (getRetryPolicy (d_type (classifyError e))) \<le> attempts_of s oid"
  shows "retryQueues (after_error oid e s) = retryQueues s"
    and "ManualReviewRequiredEvent oid ''Max retries exceeded'' (classifyError e)
           \<in> set (emitted (after_error oid e s))"
proof -
  let ?s' = "emit (DeliveryErrorEvent oid (classifyError e)) (updateStatus oid Failed id s)"
  have a: "maxAttempts (getRetryPolicy (d_type (classifyError e))) \<le> attempts_of ?s' oid"
    using assms(2) by simp
  show "retryQueues (after_error oid e s) = retryQueues s"
    using scheduleRetry_exhausted(1) [OF a] assms(1) by (simp add: after_error_retryable)
  show "ManualReviewRequiredEvent oid ''Max retries exceeded'' (classifyError e)
           \<in> set (emitted (after_error oid e s))"
    using scheduleRetry_exhausted(3) [OF a] assms(1) by (simp add: after_error_retryable)
qed

lemma classify_userAction:
  "d_userAction (classifyError e) =
     (case d_type (classifyError e) of
        INSUFFICIENT_FUNDS \<Rightarrow> Some ''Please try again in a few minutes''
      | INVALID_RECIPIENT \<Rightarrow> Some ''Please verify recipient information and try again''
      | KYC_REQUIRED \<Rightarrow> Some ''Please complete KYC verification''
      | COMPLIANCE_BLOCKED \<Rightarrow> Some ''Please contact support for assistance''
      | RATE_EXPIRED \<Rightarrow> Some ''Getting new rate...''
      | LIMIT_EXCEEDED \<Rightarrow> Some ''Please reduce amount or complete additional verification''
      | _ \<Rightarrow> None)"
  by (simp add: classifyError_def)

lemma no_retry_kinds:
  assumes "d_type (classifyError e) = COMPLIANCE_BLOCKED \<or> d_type (classifyError e) = KYC_REQUIRED"
  shows "\<not> d_retryable (classifyError e)"
    and "truthy (d_userAction (classifyError e))"
proof -
  show "\<not> d_retryable (classifyError e)"
    using assms by (auto simp add: classify_retryable_kinds)
  show "truthy (d_userAction (classifyError e))"
    using assms by (auto simp add: classify_userAction truthy_def)
qed

lemma refund_path:
  assumes "\<not> d_retryable (classifyError e)"
  shows "retryQueues (after_error oid e s) = retryQueues s"
    and "retryAttempts (after_error oid e s) = retryAttempts s"
    and "emitted (after_error oid e s) = emitted s @
          [DeliveryErrorEvent oid (classifyError e),
           RefundRequiredEvent oid (d_message (classifyError e)) (d_type (classifyError e)),
           UserNotificationEvent oid ''delivery_failed''
             (if truthy (d_userAction (classifyError e)) then the (d_userAction (classifyError e))
              else ''Your transaction could not be completed. A refund will be processed.'')
             ''error'']"
  using assms by (simp_all add: after_error_final handleNonRetryableError_def Let_def)


lemma rate_expired_retryable:
  "d_type (classifyError e) = RATE_EXPIRED \<Longrightarrow> d_retryable (classifyError e)"
  by (simp add: classify_retryable_kinds)

text \<open>
  Claim C3.  Retry policy selection by classified kind.  For an error classified
  \<open>RATE_EXPIRED\<close> the policy allows one attempt: when no attempt is recorded for the
  order, handling the error creates a timer with delay 0 (attempt 1 of 1), and once that
  retry has fired (one attempt recorded) a further such error creates no timer and takes
  the manual-review path.  For an error classified \<open>COMPLIANCE_BLOCKED\<close> or
  \<open>KYC_REQUIRED\<close> the policy allows zero attempts, handling the error leaves the timer
  map and the attempt counters as they were, and the events emitted are the error event,
  \<open>refund-required\<close> and the user notification.
\<close>

theorem retry_policy_by_kind:
  "(d_type (classifyError e) = RATE_EXPIRED \<longrightarrow>
      maxAttempts (getRetryPolicy (d_type (classifyError e))) = 1 \<and>
      (attempts_of s oid = 0 \<longrightarrow>
         retryQueues (after_error oid e s) oid =
           Some \<lparr>t_delay = 0, t_attempts = 0, t_maxAttempts = 1\<rparr> \<and>
         attempts_of (error_then_retry oid e s) oid = 1) \<and>
      (1 \<le> attempts_of s oid \<longrightarrow>
         retryQueues (after_error oid e s) = retryQueues s \<and>
         ManualReviewRequiredEvent oid ''Max retries exceeded'' (classifyError e)
           \<in> set (emitted (after_error oid e s)))) \<and>
   (d_type (classifyError e) = COMPLIANCE_BLOCKED \<or> d_type (classifyError e) = KYC_REQUIRED \<longrightarrow>
      maxAttempts (getRetryPolicy (d_type (classifyError e))) = 0 \<and>
      retryQueues (after_error oid e s) = retryQueues s \<and>
      retryAttempts (after_error oid e s) = retryAttempts s \<and>
      emitted (after_error oid e s) = emitted s @
        [DeliveryErrorEvent oid (classifyError e),
         RefundRequiredEvent oid (d_message (classifyError e)) (d_type (classifyError e)),
         UserNotificationEvent oid ''delivery_failed'' (the (d_userAction (classifyError e)))
           ''error''])"
proof (intro conjI impI)
  assume k: "d_type (classifyError e) = RATE_EXPIRED"
  have r: "d_retryable (classifyError e)" using k by (rule rate_expired_retryable)
  show m: "maxAttempts (getRetryPolicy (d_type (classifyError e))) = 1"
    using k by (simp add: getRetryPolicy_def rate_expired_policy_def)
  {
    assume z: "attempts_of s oid = 0"
    then have lt: "attempts_of s oid < maxAttempts (getRetryPolicy (d_type (classifyError e)))"
      using m by simp
    have "scheduled_delay (after_error oid e s) oid = Some 0"
      using retry_then_next(1) [OF r lt] k
      by (simp add: getRetryPolicy_def rate_expired_policy_def retry_delay_def)
    show "retryQueues (after_error oid e s) oid = Some \<lparr>t_delay = 0, t_attempts = 0, t_maxAttempts = 1\<rparr>"
      using scheduleRetry_pending(1) [of "emit (DeliveryErrorEvent oid (classifyError e)) (updateStatus oid Failed id s)" oid "classifyError e"]
        r lt z k
      by (simp add: after_error_retryable getRetryPolicy_def rate_expired_policy_def retry_delay_def)
    show "attempts_of (error_then_retry oid e s) oid = 1"
      using retry_then_next(3) [OF r lt] z by simp
  }
  {
    assume "1 \<le> attempts_of s oid"
    then have ge: "maxAttempts (getRetryPolicy (d_type (classifyError e))) \<le> attempts_of s oid"
      using m by simp
    show "retryQueues (after_error oid e s) = retryQueues s"
      using retries_exhausted(1) [OF r ge] .
    show "ManualReviewRequiredEvent oid ''Max retries exceeded'' (classifyError e)
           \<in> set (emitted (after_error oid e s))"
      using retries_exhausted(2) [OF r ge] .
  }
next
  assume k: "d_type (classifyError e) = COMPLIANCE_BLOCKED \<or> d_type (classifyError e) = KYC_REQUIRED"
  note nr = no_retry_kinds [OF k]
  show "maxAttempts (getRetryPolicy (d_type (classifyError e))) = 0"
    using k by (auto simp add: getRetryPolicy_def compliance_policy_def)
  show "retryQueues (after_error oid e s) = retryQueues s"
    using refund_path(1) [OF nr(1)] .
  show "retryAttempts (after_error oid e s) = retryAttempts s"
    using refund_path(2) [OF nr(1)] .
  show "emitted (after_error oid e s) = emitted s @
        [DeliveryErrorEvent oid (classifyError e),
         RefundRequiredEvent oid (d_message (classifyError e)) (d_type (classifyError e)),
         UserNotificationEvent oid ''delivery_failed'' (the (d_userAction (classifyError e)))
           ''error'']"
    using refund_path(3) [OF nr(1)] nr(2) by simp
qed



lemma sample_kinds:
  "d_type (classifyError rate_error) = RATE_EXPIRED"
  "d_type (classifyError kyc_error) = KYC_REQUIRED"
  "d_type (classifyError technical_error) = TECHNICAL_ERROR"
  by (simp_all add: classifyError_def rate_error_def kyc_error_def technical_error_def
      new_Error_def errorMessage_def errorCode_def js_or_def truthy_def response_field_def)

theorem retry_policy_by_kind_witness:
  "d_type (classifyError rate_error) = RATE_EXPIRED \<and>
   attempts_of initial_state ''RMT-1'' = 0 \<and>
   retryQueues (after_error ''RMT-1'' rate_error initial_state) ''RMT-1'' =
     Some \<lparr>t_delay = 0, t_attempts = 0, t_maxAttempts = 1\<rparr> \<and>
   1 \<le> attempts_of (error_then_retry ''RMT-1'' rate_error initial_state) ''RMT-1'' \<and>
   retryQueues (after_error ''RMT-1'' rate_error (error_then_retry ''RMT-1'' rate_error initial_state))
     ''RMT-1'' = None \<and>
   (d_type (classifyError kyc_error) = COMPLIANCE_BLOCKED \<or>
    d_type (classifyError kyc_error) = KYC_REQUIRED) \<and>
   retryQueues (after_error ''RMT-1'' kyc_error initial_state) = Map.empty"
proof -
  have z: "attempts_of initial_state ''RMT-1'' = 0"
    by (simp add: attempts_of_def initial_state_def)
  note a = retry_policy_by_kind [of rate_error initial_state "''RMT-1''"]
  have one: "attempts_of (error_then_retry ''RMT-1'' rate_error initial_state) ''RMT-1'' = 1"
    using a sample_kinds(1) z by simp
  have q: "retryQueues (error_then_retry ''RMT-1'' rate_error initial_state) ''RMT-1'' = None"
    using retry_then_next(2) [of rate_error initial_state "''RMT-1''"] sample_kinds(1) z
    by (simp add: classify_retryable_kinds getRetryPolicy_def rate_expired_policy_def)
  note b = retry_policy_by_kind [of rate_error "error_then_retry ''RMT-1'' rate_error initial_state" "''RMT-1''"]
  note c = retry_policy_by_kind [of kyc_error initial_state "''RMT-1''"]
  have e: "retryQueues initial_state = Map.empty" by (simp add: initial_state_def)
  show ?thesis
    using a b c sample_kinds z one q e by simp
qed

text \<open>
  Claim C4.  Under the default policy, for an order with no attempt recorded whose
  failures are classified \<open>TECHNICAL_ERROR\<close> one after the other, each scheduled
  retry firing before the next failure: the three timers are set to 5000 ms, 10000 ms
  and 20000 ms, the fourth failure schedules no timer and takes the manual-review path.
  Each delay is \<open>initialDelay * backoffMultiplier ^ attempts\<close> capped at 300000 ms.
\<close>

theorem default_backoff_sequence:
  assumes "d_type (classifyError e1) = TECHNICAL_ERROR"
    and "d_type (classifyError e2) = TECHNICAL_ERROR"
    and "d_type (classifyError e3) = TECHNICAL_ERROR"
    and "d_type (classifyError e4) = TECHNICAL_ERROR"
    and "attempts_of s oid = 0"
  shows "scheduled_delay (after_error oid e1 s) oid = Some 5000 \<and>
         scheduled_delay (after_error oid e2 (error_then_retry oid e1 s)) oid = Some 10000 \<and>
         scheduled_delay (after_error oid e3
            (error_then_retry oid e2 (error_then_retry oid e1 s))) oid = Some 20000 \<and>
         scheduled_delay (after_error oid e4
            (error_then_retry oid e3 (error_then_retry oid e2 (error_then_retry oid e1 s)))) oid = None \<and>
         ManualReviewRequiredEvent oid ''Max retries exceeded'' (classifyError e4)
           \<in> set (emitted (after_error oid e4
                 (error_then_retry oid e3 (error_then_retry oid e2 (error_then_retry oid e1 s))))) \<and>
         (\<forall>n < maxAttempts (getRetryPolicy TECHNICAL_ERROR).
            retry_delay (getRetryPolicy TECHNICAL_ERROR) n = min (5000 * 2 ^ n) 300000)"
proof -
  let ?p = "getRetryPolicy TECHNICAL_ERROR"
  have p: "maxAttempts ?p = 3" "\<And>n. retry_delay ?p n = min (5000 * 2 ^ n) 300000"
    by (simp_all add: getRetryPolicy_def default_policy_def retry_delay_def)
  have r: "d_retryable (classifyError e1)" "d_retryable (classifyError e2)"
    "d_retryable (classifyError e3)" "d_retryable (classifyError e4)"
    using assms(1-4) by (simp_all add: classify_retryable_kinds)
  let ?s1 = "error_then_retry oid e1 s"
  let ?s2 = "error_then_retry oid e2 ?s1"
  let ?s3 = "error_then_retry oid e3 ?s2"
  have lt0: "attempts_of s oid < maxAttempts (getRetryPolicy (d_type (classifyError e1)))"
    using assms(1,5) p(1) by simp
  have d1: "scheduled_delay (after_error oid e1 s) oid = Some 5000"
    using retry_then_next(1) [OF r(1) lt0] assms(1,5) p(2) by simp
  have a1: "attempts_of ?s1 oid = 1"
    using retry_then_next(3) [OF r(1) lt0] assms(5) by simp
  have lt1: "attempts_of ?s1 oid < maxAttempts (getRetryPolicy (d_type (classifyError e2)))"
    using assms(2) a1 p(1) by simp
  have d2: "scheduled_delay (after_error oid e2 ?s1) oid = Some 10000"
    using retry_then_next(1) [OF r(2) lt1] assms(2) a1 p(2) by simp
  have a2: "attempts_of ?s2 oid = 2"
    using retry_then_next(3) [OF r(2) lt1] a1 by simp
  have lt2: "attempts_of ?s2 oid < maxAttempts (getRetryPolicy (d_type (classifyError e3)))"
    using assms(3) a2 p(1) by simp
  have d3: "scheduled_delay (after_error oid e3 ?s2) oid = Some 20000"
    using retry_then_next(1) [OF r(3) lt2] assms(3) a2 p(2) by simp
  have a3: "attempts_of ?s3 oid = 3"
    using retry_then_next(3) [OF r(3) lt2] a2 by simp
  have q3: "retryQueues ?s3 oid = None"
    using retry_then_next(2) [OF r(3) lt2] .
  have ge: "maxAttempts (getRetryPolicy (d_type (classifyError e4))) \<le> attempts_of ?s3 oid"
    using assms(4) a3 p(1) by simp
  have d4: "scheduled_delay (after_error oid e4 ?s3) oid = None"
    using retries_exhausted(1) [OF r(4) ge] q3 by (simp add: scheduled_delay_def)
  have m4: "ManualReviewRequiredEvent oid ''Max retries exceeded'' (classifyError e4)
           \<in> set (emitted (after_error oid e4 ?s3))"
    using retries_exhausted(2) [OF r(4) ge] .
  show ?thesis using d1 d2 d3 d4 m4 p(2) by simp
qed

theorem default_backoff_sequence_witness:
  "d_type (classifyError technical_error) = TECHNICAL_ERROR \<and>
   attempts_of initial_state ''RMT-1'' = 0 \<and>
   scheduled_delay (after_error ''RMT-1'' technical_error initial_state) ''RMT-1'' = Some 5000 \<and>
   scheduled_delay (after_error ''RMT-1'' technical_error
      (error_then_retry ''RMT-1'' technical_error initial_state)) ''RMT-1'' = Some 10000 \<and>
   retry_delay (getRetryPolicy TECHNICAL_ERROR) 2 = 20000"
proof -
  have z: "attempts_of initial_state ''RMT-1'' = 0"
    by (simp add: attempts_of_def initial_state_def)
  have m: "(2::nat) < maxAttempts (getRetryPolicy TECHNICAL_ERROR)"
    by (simp add: getRetryPolicy_def default_policy_def)
  show ?thesis
    using default_backoff_sequence [OF sample_kinds(3) sample_kinds(3) sample_kinds(3) sample_kinds(3) z]
      sample_kinds(3) z m by simp
qed



section \<open>Properties of the aggregator client\<close>

lemma loop_step:
  assumes "isValidAddress (sp_fromToken p)" "isValidAddress (sp_toToken p)" "a < 3"
  shows "getQuote_loop p http a le ds rq =
     (if retryable_failure (http a) then
        getQuote_loop p http (a + 1) (case http a of Inl e \<Rightarrow> Some e | Inr d \<Rightarrow> None)
          (if a < 2 then ds @ [1000 * 2 ^ a] else ds) (rq + 1)
      else \<lparr>run_result = outcome_result (http a), run_delays = ds, run_requests = rq + 1\<rparr>)"
  using assms
  by (subst getQuote_loop.simps)
     (auto simp add: retryCount_def retryDelay_def attempt_quote_def retryable_failure_def
        outcome_result_def Let_def split: sum.splits)

lemma loop_end:
  "getQuote_loop p http 3 (Some e) ds rq =
     \<lparr>run_result = Inl (handleApiError e), run_delays = ds, run_requests = rq\<rparr>"
  by (subst getQuote_loop.simps) (simp add: retryCount_def)

lemma retryable_failure_result:
  "retryable_failure r \<Longrightarrow> (case r of Inl e \<Rightarrow> Some e | Inr d \<Rightarrow> None) = Some (projl r) \<and> outcome_result r = Inl (handleApiError (projl r))"
  by (auto simp add: retryable_failure_def outcome_result_def split: sum.splits)

lemma first_decisive:
  assumes v: "isValidAddress (sp_fromToken p)" "isValidAddress (sp_toToken p)"
    and k: "k < 3" and before: "\<forall>j<k. retryable_failure (http j)"
    and at: "\<not> retryable_failure (http k)"
  shows "oneInch_getQuote p http =
     \<lparr>run_result = outcome_result (http k), run_delays = take k [1000, 2000], run_requests = k + 1\<rparr>"
proof -
  consider "k = 0" | "k = 1" | "k = 2" using k by linarith
  then show ?thesis
  proof cases
    case 1
    then show ?thesis using at by (simp add: oneInch_getQuote_def loop_step [OF v])
  next
    case 2
    then have "retryable_failure (http 0)" using before by simp
    then show ?thesis using at 2 by (simp add: oneInch_getQuote_def loop_step [OF v])
  next
    case 3
    then have "retryable_failure (http 0)" "retryable_failure (http 1)" using before by simp_all
    then show ?thesis using at 3
      by (simp add: oneInch_getQuote_def loop_step [OF v] numeral_2_eq_2)
  qed
qed

lemma all_fail:
  assumes v: "isValidAddress (sp_fromToken p)" "isValidAddress (sp_toToken p)"
    and f: "\<forall>j<3. retryable_failure (http j)"
  shows "oneInch_getQuote p http =
     \<lparr>run_result = outcome_result (http 2), run_delays = [1000, 2000], run_requests = 3\<rparr>"
proof -
  have r: "retryable_failure (http 0)" "retryable_failure (http 1)" "retryable_failure (http 2)"
    using f by simp_all
  have e2: "(case http 2 of Inl e \<Rightarrow> Some e | Inr d \<Rightarrow> None) = Some (projl (http 2))"
    "outcome_result (http 2) = Inl (handleApiError (projl (http 2)))"
    using retryable_failure_result [OF r(3)] by simp_all
  have "oneInch_getQuote p http = getQuote_loop p http 3 (Some (projl (http 2))) [1000, 2000] 3"
    using r e2 by (simp add: oneInch_getQuote_def loop_step [OF v] numeral_2_eq_2 numeral_3_eq_3)
  then show ?thesis using e2 by (simp add: loop_end)
qed

lemma client_error_messages:
  assumes "err_response e = Some r"
  shows "resp_status r = 401 \<Longrightarrow>
           handleApiError e = new_Error ''Invalid 1inch API key. Please check your configuration.''"
    and "resp_status r = 429 \<Longrightarrow>
           handleApiError e = new_Error ''Rate limit exceeded. Please try again later.''"
    and "resp_status r = 400 \<Longrightarrow>
           handleApiError e = new_Error (''Bad request: '' @ api_message r)"
    and "resp_status r = 404 \<Longrightarrow>
           handleApiError e = new_Error ''Token pair not found or route not available''"
  using assms by (simp_all add: handleApiError_def Let_def)

text \<open>
  Claim C7, as amended.  For well-formed token addresses, \<open>getQuote\<close> goes on to the
  next attempt exactly after a failure that carries no 4xx response, and sends at most 3
  requests.  The first answer that is a success or a 4xx failure ends the call at once
  with the normalised quote or the mapped error; before it, the call has slept 1000 ms
  after the first failed attempt and 2000 ms after the second.  When all three attempts
  fail the delays slept are 1000 ms and 2000 ms, none follows the third attempt, and the
  last error is mapped and thrown.  A 4xx response is never retried and maps to the
  bad-key (401), rate-limit (429), bad-request (400) or route-not-found (404) error.
\<close>

theorem getQuote_retry_behaviour:
  assumes "isValidAddress (sp_fromToken p)" and "isValidAddress (sp_toToken p)"
  shows "(k < 3 \<and> (\<forall>j<k. retryable_failure (http j)) \<and> \<not> retryable_failure (http k) \<longrightarrow>
            oneInch_getQuote p http =
              \<lparr>run_result = outcome_result (http k), run_delays = take k [1000, 2000],
               run_requests = k + 1\<rparr>) \<and>
         ((\<forall>j<3. retryable_failure (http j)) \<longrightarrow>
            oneInch_getQuote p http =
              \<lparr>run_result = outcome_result (http 2), run_delays = [1000, 2000],
               run_requests = 3\<rparr>) \<and>
         (\<forall>e r. err_response e = Some r \<and> 400 \<le> resp_status r \<and> resp_status r < 500 \<longrightarrow>
            \<not> retryable_failure (Inl e) \<and>
            (resp_status r = 401 \<longrightarrow> handleApiError e =
               new_Error ''Invalid 1inch API key. Please check your configuration.'') \<and>
            (resp_status r = 429 \<longrightarrow> handleApiError e =
               new_Error ''Rate limit exceeded. Please try again later.'') \<and>
            (resp_status r = 400 \<longrightarrow> handleApiError e =
               new_Error (''Bad request: '' @ api_message r)) \<and>
            (resp_status r = 404 \<longrightarrow> handleApiError e =
               new_Error ''Token pair not found or route not available''))"
proof (intro conjI impI allI)
  assume "k < 3 \<and> (\<forall>j<k. retryable_failure (http j)) \<and> \<not> retryable_failure (http k)"
  then show "oneInch_getQuote p http =
      \<lparr>run_result = outcome_result (http k), run_delays = take k [1000, 2000],
       run_requests = k + 1\<rparr>"
    using first_decisive [OF assms, of k http] by blast
next
  assume "\<forall>j<3. retryable_failure (http j)"
  then show "oneInch_getQuote p http =
      \<lparr>run_result = outcome_result (http 2), run_delays = [1000, 2000], run_requests = 3\<rparr>"
    by (rule all_fail [OF assms])
next
  fix e :: js_error and r :: http_response
  assume h: "err_response e = Some r \<and> 400 \<le> resp_status r \<and> resp_status r < 500"
  then show "\<not> retryable_failure (Inl e)"
    by (simp add: retryable_failure_def is_client_error_def)
  from h have er: "err_response e = Some r" by simp
  show "resp_status r = 401 \<Longrightarrow> handleApiError e =
      new_Error ''Invalid 1inch API key. Please check your configuration.''"
    by (rule client_error_messages(1) [OF er])
  show "resp_status r = 429 \<Longrightarrow> handleApiError e =
      new_Error ''Rate limit exceeded. Please try again later.''"
    by (rule client_error_messages(2) [OF er])
  show "resp_status r = 400 \<Longrightarrow> handleApiError e = new_Error (''Bad request: '' @ api_message r)"
    by (rule client_error_messages(3) [OF er])
  show "resp_status r = 404 \<Longrightarrow> handleApiError e =
      new_Error ''Token pair not found or route not available''"
    by (rule client_error_messages(4) [OF er])
qed



lemma quote_params_valid:
  "isValidAddress (sp_fromToken quote_params)" "isValidAddress (sp_toToken quote_params)"
  by (simp_all add: quote_params_def isValidAddress_def is_hex_char_def)

lemma sample_answers:
  "retryable_failure (service_down j)"
  "retryable_failure (refused_then_404 0)"
  "\<not> retryable_failure (refused_then_404 1)"
  "outcome_result (service_down 2) = Inl (new_Error ''Network error: connect ECONNREFUSED'')"
  "outcome_result (refused_then_404 1) = Inl (new_Error ''Token pair not found or route not available'')"
  by (simp_all add: retryable_failure_def service_down_def refused_then_404_def refused_error_def
      not_found_error_def is_client_error_def outcome_result_def handleApiError_def)

theorem getQuote_retry_behaviour_witness:
  "isValidAddress (sp_fromToken quote_params) \<and> isValidAddress (sp_toToken quote_params) \<and>
   (1::nat) < 3 \<and> retryable_failure (refused_then_404 0) \<and>
   \<not> retryable_failure (refused_then_404 1) \<and>
   oneInch_getQuote quote_params refused_then_404 =
     \<lparr>run_result = Inl (new_Error ''Token pair not found or route not available''),
      run_delays = [1000], run_requests = 2\<rparr> \<and>
   retryable_failure (service_down 0) \<and> retryable_failure (service_down 1) \<and>
   retryable_failure (service_down 2) \<and>
   oneInch_getQuote quote_params service_down =
     \<lparr>run_result = Inl (new_Error ''Network error: connect ECONNREFUSED''),
      run_delays = [1000, 2000], run_requests = 3\<rparr> \<and>
   err_response not_found_error \<noteq> None \<and>
   handleApiError not_found_error = new_Error ''Token pair not found or route not available''"
proof -
  have r: "err_response not_found_error = Some \<lparr>resp_status = 404, resp_description = None,
      resp_message = None, resp_error = None, resp_error_code = None, resp_required_info = None,
      resp_limits = None\<rparr>"
    by (simp add: not_found_error_def)
  let ?resp = "\<lparr>resp_status = 404, resp_description = None,
      resp_message = None, resp_error = None, resp_error_code = None, resp_required_info = None,
      resp_limits = None\<rparr>"
  note a = getQuote_retry_behaviour [OF quote_params_valid, of 1 refused_then_404]
  note b = getQuote_retry_behaviour [OF quote_params_valid, of 0 service_down]
  have a1: "oneInch_getQuote quote_params refused_then_404 =
     \<lparr>run_result = Inl (new_Error ''Token pair not found or route not available''),
      run_delays = [1000], run_requests = 2\<rparr>"
    using a [THEN conjunct1] sample_answers by simp
  have b1: "oneInch_getQuote quote_params service_down =
     \<lparr>run_result = Inl (new_Error ''Network error: connect ECONNREFUSED''),
      run_delays = [1000, 2000], run_requests = 3\<rparr>"
    using b [THEN conjunct2, THEN conjunct1] sample_answers by simp
  have c: "handleApiError not_found_error = new_Error ''Token pair not found or route not available''"
    using a [THEN conjunct2, THEN conjunct2, THEN spec, THEN spec, of not_found_error ?resp] r
    by simp
  show ?thesis
    using a1 b1 c r quote_params_valid sample_answers by simp
qed

theorem getQuote_delays_counterexample:
  "run_requests (oneInch_getQuote quote_params service_down) = 3 \<and>
   run_delays (oneInch_getQuote quote_params service_down) = [1000, 2000] \<and>
   4000 \<notin> set (run_delays (oneInch_getQuote quote_params service_down))"
  using all_fail [OF quote_params_valid, of service_down] sample_answers(1) by simp

text \<open>
  The address check sits inside the \<open>try\<close> block, so its failure is caught like any
  other: with a malformed token address the loop runs its three passes and sleeps twice
  without sending a request, and the check's error comes out as a network error.
\<close>

lemma invalid_address_is_retried:
  assumes "\<not> isValidAddress (sp_fromToken p) \<or> \<not> isValidAddress (sp_toToken p)"
  shows "oneInch_getQuote p http =
     \<lparr>run_result = Inl (new_Error ''Network error: Invalid token address''),
      run_delays = [1000, 2000], run_requests = 0\<rparr>"
proof -
  have t: "attempt_quote p r = (Inl (new_Error ''Invalid token address''), False)" for r
    using assms by (auto simp add: attempt_quote_def)
  have n: "\<not> is_client_error (new_Error ''Invalid token address'')"
    by (simp add: is_client_error_def new_Error_def)
  have s: "a < 3 \<Longrightarrow> getQuote_loop p http a le ds rq =
      getQuote_loop p http (a + 1) (Some (new_Error ''Invalid token address''))
        (if a < 2 then ds @ [1000 * 2 ^ a] else ds) rq" for a le ds rq
    by (subst getQuote_loop.simps) (simp add: t n retryCount_def retryDelay_def)
  have e: "handleApiError (new_Error ''Invalid token address'') =
      new_Error ''Network error: Invalid token address''"
    by (simp add: handleApiError_def new_Error_def)
  have "oneInch_getQuote p http =
      getQuote_loop p http 3 (Some (new_Error ''Invalid token address'')) [1000, 2000] 0"
    by (simp add: oneInch_getQuote_def s numeral_2_eq_2 numeral_3_eq_3)
  then show ?thesis
    by (simp add: loop_end e)
qed



section \<open>Properties of anchor resolution\<close>

lemma anchors_values: "map snd anchors = anchorList"
  by (simp add: anchors_def comp_def)





section \<open>Properties of quote composition\<close>

lemma log2_up_step: "2 \<le> x \<Longrightarrow> log2_up x = Suc (log2_up (x / 2))"
  by (subst log2_up.simps) simp

lemma log2_up_stop: "x < 2 \<Longrightarrow> log2_up x = 0"
  by (subst log2_up.simps) simp

lemma log2_down_step: "0 < x \<Longrightarrow> x < 1 \<Longrightarrow> log2_down x = Suc (log2_down (x * 2))"
  by (subst log2_down.simps) simp

lemma log2_down_stop: "1 \<le> x \<Longrightarrow> log2_down x = 0"
  by (subst log2_down.simps) simp

lemma floor_numeral_div: "\<lfloor>numeral a / numeral b :: rat\<rfloor> = numeral a div numeral b"
  using floor_divide_of_int_eq [of "numeral a" "numeral b", where ?'a = rat] by simp

lemmas eval_fl = fl_def ulp_def exponent_def two_pow_def round_even_def Let_def
  log2_up_step log2_up_stop log2_down_step log2_down_stop floor_numeral_div

lemma fee_literals:
  "fl (3 / 1000) = Finite (3458764513820541 / 1152921504606846976)"
  "fl (1 / 1000) = Finite (1152921504606847 / 1152921504606846976)"
  "fl (1 / 200) = Finite (5764607523034235 / 1152921504606846976)"
  by (simp_all add: eval_fl)

lemma fee_sum:
  "foldl fadd (Finite 0)
     [Finite (3458764513820541 / 1152921504606846976),
      Finite (1152921504606847 / 1152921504606846976),
      Finite (5764607523034235 / 1152921504606846976)] =
     Finite (1297036692682703 / 144115188075855872)"
  by (simp add: eval_fl)

lemma fee_percent:
  "fmul (Finite (1297036692682703 / 144115188075855872)) (Finite 100) =
     Finite (4053239664633447 / 4503599627370496)"
  by (simp add: eval_fl)

lemma fee_complement:
  "fsub (Finite 1) (Finite (1297036692682703 / 144115188075855872)) =
     Finite (8926134461448323 / 9007199254740992)"
  by (simp add: fsub_def eval_fl)

lemma whole_minutes:
  "fl 0 = Finite 0" "fl 1 = Finite 1" "fl 2 = Finite 2" "fl 3 = Finite 3" "fl 4 = Finite 4"
  "fl 5 = Finite 5" "fl 8 = Finite 8" "fl 60 = Finite 60" "fl 63 = Finite 63"
  "fl 120 = Finite 120" "fl 123 = Finite 123" "fl 1440 = Finite 1440" "fl 1443 = Finite 1443"
  "fl 2880 = Finite 2880" "fl 2883 = Finite 2883"
  by (simp_all add: eval_fl)

lemma resolved_anchor_listed:
  assumes "getAnchorForCorridor fromCountry toCountry currency = Some a"
  shows "a \<in> set anchorList"
proof (cases "truthy (map_of corridorMap (fromCountry @ ''-'' @ toCountry))")
  case True
  then have "map_of anchors (the (map_of corridorMap (fromCountry @ ''-'' @ toCountry))) = Some a"
    using assms by (simp add: getAnchorForCorridor_def Let_def)
  then have "(the (map_of corridorMap (fromCountry @ ''-'' @ toCountry)), a) \<in> set anchors"
    by (rule map_of_SomeD)
  then show ?thesis by (auto simp add: anchors_def)
next
  case False
  then have "find (\<lambda>a. currency \<in> set (supportedCurrencies a)) anchorList = Some a"
    using assms by (simp add: getAnchorForCorridor_def Let_def anchors_values)
  then show ?thesis by (auto simp add: find_Some_iff)
qed

lemmas delivery_time_defs = estimateDeliveryTime_def anchors_def anchorList_def deliveryTimes_def
  get_property_def object_prototype_keys_def whole_minutes

lemma delivery_time_inherited:
  assumes "a \<in> set anchorList" and "m \<in> set object_prototype_keys"
  shows "estimateDeliveryTime (a_code a) m = Builtin m"
proof -
  from assms(1) consider "a_code a = ''VIBRANT_USD''" | "a_code a = ''CLICK_PHP''"
    | "a_code a = ''COWRIE_NGN''" | "a_code a = ''SETTLE_EUR''"
    by (auto simp add: anchorList_def)
  then show ?thesis
    using assms(2) by cases (auto simp add: delivery_time_defs)
qed

lemma delivery_time_minutes:
  assumes "a \<in> set anchorList" and "m \<notin> set object_prototype_keys"
  shows "estimateDeliveryTime (a_code a) m \<in>
           {Number (Finite 1), Number (Finite 5), Number (Finite 60), Number (Finite 120),
            Number (Finite 1440), Number (Finite 2880)}"
proof -
  from assms(1) consider "a_code a = ''VIBRANT_USD''" | "a_code a = ''CLICK_PHP''"
    | "a_code a = ''COWRIE_NGN''" | "a_code a = ''SETTLE_EUR''"
    by (auto simp add: anchorList_def)
  then show ?thesis
    using assms(2) by cases (auto simp add: delivery_time_defs)
qed

lemma minutes_total:
  assumes "v \<in> {Number (Finite 1), Number (Finite 5), Number (Finite 60), Number (Finite 120),
            Number (Finite 1440), Number (Finite 2880)}"
  shows "\<exists>t. v = Number (Finite t) \<and>
           foldl (js_plus lib) (Number (Finite 0)) [Number (Finite 1), Number (Finite 2), v] =
             Number (Finite (1 + 2 + t))"
  using assms by (auto simp add: js_plus_def whole_minutes)

lemma inherited_total:
  "foldl (js_plus lib) (Number (Finite 0)) [Number (Finite 1), Number (Finite 2), Builtin m] =
     Text (numberToString lib (Finite 3) @ builtinText lib m)"
  by (simp add: js_plus_def to_text_def whole_minutes)

lemma route_fees:
  "map step_fees (build_route params anchor) =
     [Finite (3458764513820541 / 1152921504606846976),
      Finite (1152921504606847 / 1152921504606846976),
      Finite (5764607523034235 / 1152921504606846976)]"
  by (simp add: build_route_def fee_literals)

lemma route_times:
  "map step_estimatedTime (build_route params anchor) =
     [Number (Finite 1), Number (Finite 2),
      estimateDeliveryTime (a_code anchor) (requested_method params)]"
  by (simp add: build_route_def)

lemma getQuote_Inr:
  assumes "getQuote lib http params = Inr q"
  obtains anchor units where
    "getAnchorForCorridor ''US'' (r_toCountry params) (r_toCurrency params) = Some anchor"
    "swapped_amount lib http params = Some (parseFloat_units6 units)"
    "q = \<lparr>q_fromChain = r_fromChain params,
          q_fromToken = r_fromToken params,
          q_fromAmount = r_fromAmount params,
          q_toCountry = r_toCountry params,
          q_toCurrency = r_toCurrency params,
          q_toAmount = toFixed2 lib
            (fmul (fmul (parseFloat_units6 units) (getExchangeRate ''USD'' (r_toCurrency params)))
               (fsub (Finite 1) (foldl fadd (Finite 0) (map step_fees (build_route params anchor))))),
          q_exchangeRate = getExchangeRate ''USD'' (r_toCurrency params),
          q_totalFees = fmul (foldl fadd (Finite 0) (map step_fees (build_route params anchor))) (Finite 100),
          q_estimatedTime = foldl (js_plus lib) (Number (Finite 0))
                              (map step_estimatedTime (build_route params anchor)),
          q_route = build_route params anchor\<rparr>"
  using assms
  by (auto simp add: getQuote_def swapped_amount_def Let_def foldl_map
      split: option.splits sum.splits if_splits)

text \<open>
  What holds of every quote that \<open>getQuote\<close> returns.  The route has exactly three
  steps, swap, bridge and anchor in that order.  \<open>totalFees\<close> is the sum of the steps' fee
  fractions times 100 as the arithmetic of doubles computes it, which is the double
  \<open>0.9000000000000001\<close> for every quote and lies within \<open>10^-15\<close> of the exact value.
  \<open>estimatedTime\<close> is what \<open>+\<close> makes of the steps' estimated times from 0 on: when the
  requested delivery method is not the name of an inherited property, the three times
  are whole minutes and \<open>estimatedTime\<close> is their sum; when it is, the time of the anchor
  step is the inherited value and \<open>estimatedTime\<close> is a text.
\<close>

lemma quote_route_shape:
  assumes "getQuote lib http params = Inr q"
  shows "length (q_route q) = 3 \<and>
         map step_type (q_route q) = [Swap, Bridge, Anchor] \<and>
         q_totalFees q = fmul (foldl fadd (Finite 0) (map step_fees (q_route q))) (Finite 100) \<and>
         (\<exists>f1 f2 f3 v. map step_fees (q_route q) = [Finite f1, Finite f2, Finite f3] \<and>
            q_totalFees q = Finite v \<and> \<bar>v - (f1 + f2 + f3) * 100\<bar> \<le> 1 / 10 ^ 15) \<and>
         q_totalFees q = Finite (4053239664633447 / 4503599627370496) \<and>
         q_estimatedTime q =
           foldl (js_plus lib) (Number (Finite 0)) (map step_estimatedTime (q_route q)) \<and>
         (requested_method params \<notin> set object_prototype_keys \<longrightarrow>
            (\<exists>t. map step_estimatedTime (q_route q) =
                    [Number (Finite 1), Number (Finite 2), Number (Finite t)] \<and>
                  q_estimatedTime q = Number (Finite (1 + 2 + t)))) \<and>
         (requested_method params \<in> set object_prototype_keys \<longrightarrow>
            q_estimatedTime q =
              Text (numberToString lib (Finite 3) @ builtinText lib (requested_method params)))"
proof -
  from assms obtain anchor units where
    a: "getAnchorForCorridor ''US'' (r_toCountry params) (r_toCurrency params) = Some anchor"
    and r: "q_route q = build_route params anchor"
    and f: "q_totalFees q =
              fmul (foldl fadd (Finite 0) (map step_fees (build_route params anchor))) (Finite 100)"
    and t: "q_estimatedTime q = foldl (js_plus lib) (Number (Finite 0))
                                  (map step_estimatedTime (build_route params anchor))"
    by (elim getQuote_Inr) simp
  have listed: "anchor \<in> set anchorList"
    using a by (rule resolved_anchor_listed)
  have shape: "length (q_route q) = 3" "map step_type (q_route q) = [Swap, Bridge, Anchor]"
    by (simp_all add: r build_route_def)
  have total: "q_totalFees q = Finite (4053239664633447 / 4503599627370496)"
    by (simp only: f route_fees fee_sum fee_percent)
  have fees: "map step_fees (q_route q) =
                [Finite (3458764513820541 / 1152921504606846976),
                 Finite (1152921504606847 / 1152921504606846976),
                 Finite (5764607523034235 / 1152921504606846976)]"
    by (simp add: r route_fees)
  have close: "\<exists>f1 f2 f3 v. map step_fees (q_route q) = [Finite f1, Finite f2, Finite f3] \<and>
            q_totalFees q = Finite v \<and> \<bar>v - (f1 + f2 + f3) * 100\<bar> \<le> 1 / 10 ^ 15"
  proof (intro exI conjI)
    show "map step_fees (q_route q) =
                [Finite (3458764513820541 / 1152921504606846976),
                 Finite (1152921504606847 / 1152921504606846976),
                 Finite (5764607523034235 / 1152921504606846976)]"
      by (rule fees)
    show "q_totalFees q = Finite (4053239664633447 / 4503599627370496)"
      by (rule total)
    show "\<bar>4053239664633447 / 4503599627370496 -
            (3458764513820541 / 1152921504606846976 + 1152921504606847 / 1152921504606846976 +
             5764607523034235 / 1152921504606846976) * 100\<bar> \<le> (1 / 10 ^ 15 :: rat)"
      by simp
  qed
  have plain: "\<exists>t. map step_estimatedTime (q_route q) =
                    [Number (Finite 1), Number (Finite 2), Number (Finite t)] \<and>
                  q_estimatedTime q = Number (Finite (1 + 2 + t))"
    if "requested_method params \<notin> set object_prototype_keys"
  proof -
    from minutes_total [OF delivery_time_minutes [OF listed that], of lib]
    obtain t' where
      "estimateDeliveryTime (a_code anchor) (requested_method params) = Number (Finite t')"
      "foldl (js_plus lib) (Number (Finite 0))
         [Number (Finite 1), Number (Finite 2),
          estimateDeliveryTime (a_code anchor) (requested_method params)] =
       Number (Finite (1 + 2 + t'))"
      by blast
    then show ?thesis
      by (simp add: r t route_times)
  qed
  have inherited: "q_estimatedTime q =
              Text (numberToString lib (Finite 3) @ builtinText lib (requested_method params))"
    if "requested_method params \<in> set object_prototype_keys"
    unfolding t route_times delivery_time_inherited [OF listed that]
    by (rule inherited_total)
  show ?thesis
    using shape f r close total t plain inherited by simp
qed

lemma show_nat_small: "n < 10 \<Longrightarrow> show_nat n = [digit_char n]"
  by (subst show_nat.simps) simp

lemma show_nat_large: "10 \<le> n \<Longrightarrow> show_nat n = show_nat (n div 10) @ [digit_char n]"
  by (subst show_nat.simps) simp

lemmas eval_fixed = toFixed2_def Let_def show_nat_small show_nat_large digit_char_def floor_numeral_div

lemma sample_valid: "isValidAddress ''0xA0b86991c6218b36c1d19D4a2e9Eb0cE3606eB48''"
  by (simp add: isValidAddress_def is_hex_char_def)

lemma sample_anchor: "getAnchorForCorridor ''US'' ''Philippines'' ''PHP'' = Some (anchorList ! 1)"
  by (simp add: getAnchorForCorridor_def corridorMap_def truthy_def anchors_def anchorList_def)

lemma sample_wrapped:
  "getWrappedStellarUSDC ''ethereum'' =
     Own \<lparr>w_address = ''0xA0b86991c6218b36c1d19D4a2e9Eb0cE3606eB48'',
          w_symbol = ''sUSDC'', w_decimals = 6, w_name = ''Wrapped Stellar USDC''\<rparr>"
  by (simp add: getWrappedStellarUSDC_def get_property_def WRAPPED_STELLAR_USDC_def
      toLowerCase_def to_lower_char_def)

lemma first_answer:
  assumes "isValidAddress (sp_fromToken p)" and "isValidAddress (sp_toToken p)"
    and "http 0 = Inr d"
  shows "run_result (oneInch_getQuote p http) = Inr (normalize_quote d)"
  using assms
  by (subst oneInch_getQuote_def, subst getQuote_loop.simps)
     (simp add: attempt_quote_def retryCount_def)

lemma sample_swap:
  assumes "r_fromChain params = ''ethereum''"
    and "r_fromToken params = ''0xA0b86991c6218b36c1d19D4a2e9Eb0cE3606eB48''"
    and "http 0 = Inr \<lparr>data_dstAmount = Some amount, data_toAmount = None,
                       data_gas = Some ''150000'', data_estimatedGas = None\<rparr>"
    and "amount \<noteq> []"
  shows "run_result (oneInch_getQuote
           (aggregator_request params (getWrappedStellarUSDC (r_fromChain params))) http) =
         Inr \<lparr>sq_toAmount = Some amount, sq_estimatedGas = Some ''150000''\<rparr>"
proof -
  have "run_result (oneInch_getQuote
           (aggregator_request params (getWrappedStellarUSDC (r_fromChain params))) http) =
        Inr (normalize_quote \<lparr>data_dstAmount = Some amount, data_toAmount = None,
                       data_gas = Some ''150000'', data_estimatedGas = None\<rparr>)"
    by (rule first_answer)
       (simp_all add: assms aggregator_request_def sample_wrapped token_address_def sample_valid)
  then show ?thesis
    using assms(4) by (simp add: normalize_quote_def js_or_def truthy_def)
qed

lemma sample_amounts:
  "bigNumberish sample_lib ''100000000'' = Some 100000000"
  "bigNumberish sample_lib ''10000000'' = Some 10000000"
  "parseFloat_units6 100000000 = Finite 100"
  "parseFloat_units6 10000000 = Finite 10"
  "getExchangeRate ''USD'' ''PHP'' = Finite (113 / 2)"
  by (simp_all add: sample_lib_def read_decimal_def digit_value_def parseFloat_units6_def
      getExchangeRate_def rates_def eval_fl)

lemma sample_products:
  "fmul (fmul (Finite 100) (Finite (113 / 2))) (Finite (8926134461448323 / 9007199254740992)) =
     Finite (3078165265330995 / 549755813888)"
  "fmul (fmul (Finite 10) (Finite (113 / 2))) (Finite (8926134461448323 / 9007199254740992)) =
     Finite (615633053066199 / 1099511627776)"
  by (simp_all add: eval_fl)

lemma sample_fixed:
  "toFixed2 sample_lib (Finite (3078165265330995 / 549755813888)) = ''5599.15''"
  "toFixed2 sample_lib (Finite (615633053066199 / 1099511627776)) = ''559.91''"
  "toFixed2 sample_lib (Finite (559915 / 1000)) = ''559.92''"
  "toFixed2 sample_lib (Finite (- 1 / 1000)) = ''-0.00''"
  "toFixed2 sample_lib (fl (1005 / 1000)) = ''1.00''"
  "toFixed2 sample_lib PosInf = ''Infinity''"
  by (simp_all add: eval_fixed eval_fl)

lemma sample_eval:
  assumes "r_fromChain params = ''ethereum''"
    and "r_fromToken params = ''0xA0b86991c6218b36c1d19D4a2e9Eb0cE3606eB48''"
    and "r_toCountry params = ''Philippines''" and "r_toCurrency params = ''PHP''"
    and "http 0 = Inr \<lparr>data_dstAmount = Some amount, data_toAmount = None,
                       data_gas = Some ''150000'', data_estimatedGas = None\<rparr>"
    and "amount \<noteq> []" and "bigNumberish lib amount = Some units"
  shows "getQuote lib http params =
     Inr \<lparr>q_fromChain = ''ethereum'',
          q_fromToken = ''0xA0b86991c6218b36c1d19D4a2e9Eb0cE3606eB48'',
          q_fromAmount = r_fromAmount params, q_toCountry = ''Philippines'',
          q_toCurrency = ''PHP'',
          q_toAmount = toFixed2 lib
            (fmul (fmul (parseFloat_units6 units) (Finite (113 / 2)))
               (Finite (8926134461448323 / 9007199254740992))),
          q_exchangeRate = Finite (113 / 2),
          q_totalFees = Finite (4053239664633447 / 4503599627370496),
          q_estimatedTime = foldl (js_plus lib) (Number (Finite 0))
             [Number (Finite 1), Number (Finite 2),
              estimateDeliveryTime ''CLICK_PHP'' (requested_method params)],
          q_route = build_route params (anchorList ! 1)\<rparr>"
proof -
  have w: "getWrappedStellarUSDC (r_fromChain params) \<noteq> Undefined"
    by (simp add: assms(1) sample_wrapped)
  have c: "a_code (anchorList ! 1) = ''CLICK_PHP''"
    by (simp add: anchorList_def)
  have t: "foldl (\<lambda>sum step. js_plus lib sum (step_estimatedTime step)) (Number (Finite 0))
             (build_route params (anchorList ! 1)) =
           foldl (js_plus lib) (Number (Finite 0))
             [Number (Finite 1), Number (Finite 2),
              estimateDeliveryTime ''CLICK_PHP'' (requested_method params)]"
    by (simp only: foldl_map [symmetric] route_times c)
  have f: "foldl (\<lambda>sum step. fadd sum (step_fees step)) (Finite 0)
             (build_route params (anchorList ! 1)) =
           Finite (1297036692682703 / 144115188075855872)"
    by (simp only: foldl_map [symmetric] route_fees fee_sum)
  show ?thesis
    using w sample_swap [where http = http, OF assms(1,2,5,6)] assms
    by (simp add: getQuote_def Let_def sample_anchor f t sample_amounts fee_percent
        fee_complement fsub_def eval_fl js_or_def truthy_def del: One_nat_def)
qed

lemma sample_requests:
  "r_fromChain sample_request = ''ethereum''"
  "r_fromToken sample_request = ''0xA0b86991c6218b36c1d19D4a2e9Eb0cE3606eB48''"
  "r_toCountry sample_request = ''Philippines''" "r_toCurrency sample_request = ''PHP''"
  "r_fromAmount sample_request = ''100000000''"
  "requested_method sample_request = ''gcash''"
  "r_fromChain constructor_request = ''ethereum''"
  "r_fromToken constructor_request = ''0xA0b86991c6218b36c1d19D4a2e9Eb0cE3606eB48''"
  "r_toCountry constructor_request = ''Philippines''" "r_toCurrency constructor_request = ''PHP''"
  "r_fromAmount constructor_request = ''100000000''"
  "requested_method constructor_request = ''constructor''"
  by (simp_all add: sample_request_def constructor_request_def requested_method_def
      js_or_def truthy_def)

lemma sample_answers_first:
  "quote_answer 0 = Inr \<lparr>data_dstAmount = Some ''100000000'', data_toAmount = None,
                       data_gas = Some ''150000'', data_estimatedGas = None\<rparr>"
  "ten_usdc_answer 0 = Inr \<lparr>data_dstAmount = Some ''10000000'', data_toAmount = None,
                       data_gas = Some ''150000'', data_estimatedGas = None\<rparr>"
  by (simp_all add: quote_answer_def ten_usdc_answer_def)


lemma constructor_quote_eval:
  "getQuote sample_lib quote_answer constructor_request = Inr constructor_quote"
  by (subst sample_eval [where http = quote_answer and amount = "''100000000''",
        OF sample_requests(7-10) sample_answers_first(1) _ sample_amounts(1)])
     (simp_all add: sample_requests sample_amounts sample_products sample_fixed sample_quote_def
        constructor_quote_def build_route_def fee_literals delivery_time_defs js_plus_def eval_fl eval_fixed
        to_text_def sample_lib_def small_number_text_def show_nat_small digit_char_def)

lemma ten_usdc_quote_eval:
  "getQuote sample_lib ten_usdc_answer sample_request =
     Inr (sample_quote\<lparr>q_toAmount := ''559.91''\<rparr>)"
  by (subst sample_eval [where http = ten_usdc_answer and amount = "''10000000''",
        OF sample_requests(1-4) sample_answers_first(2) _ sample_amounts(2)])
     (simp_all add: sample_requests sample_amounts sample_products sample_fixed sample_quote_def
        build_route_def fee_literals delivery_time_defs js_plus_def eval_fl eval_fixed)

text \<open>
  Claim C8.  The route of every quote has the three steps in order and \<open>totalFees\<close> is
  the sum of the fee fractions times 100, as \<open>quote_route_shape\<close> states; but the part
  of the claim on \<open>estimatedTime\<close> fails for a delivery method that names a property
  inherited from \<open>Object.prototype\<close>.  For the sample request with the delivery method
  \<open>constructor\<close>, \<open>deliveryTimes[anchorCode]?.[method]\<close> finds the inherited
  constructor, which is truthy, so that the default of 60 minutes is not taken: the time
  of the anchor step is that function, and \<open>estimatedTime\<close> is \<open>0 + 1 + 2\<close> followed by
  the text of the function, not a number of minutes.
\<close>

theorem quote_time_inherited_method:
  "getQuote sample_lib quote_answer constructor_request = Inr constructor_quote \<and>
   requested_method constructor_request = ''constructor'' \<and>
   map step_type (q_route constructor_quote) = [Swap, Bridge, Anchor] \<and>
   q_totalFees constructor_quote = Finite (4053239664633447 / 4503599627370496) \<and>
   map step_estimatedTime (q_route constructor_quote) =
     [Number (Finite 1), Number (Finite 2), Builtin ''constructor''] \<and>
   q_estimatedTime constructor_quote = Text ''3function Object() { [native code] }'' \<and>
   (\<forall>minutes. q_estimatedTime constructor_quote \<noteq> Number minutes)"
proof -
  have k: "requested_method constructor_request \<in> set object_prototype_keys"
    by (simp add: sample_requests object_prototype_keys_def)
  have "q_estimatedTime constructor_quote =
          Text (numberToString sample_lib (Finite 3) @
                builtinText sample_lib (requested_method constructor_request))"
    using quote_route_shape [OF constructor_quote_eval] k by blast
  then have t: "q_estimatedTime constructor_quote = Text ''3function Object() { [native code] }''"
    by (simp add: sample_requests sample_lib_def small_number_text_def show_nat_small
        digit_char_def)
  have r: "map step_estimatedTime (q_route constructor_quote) =
     [Number (Finite 1), Number (Finite 2), Builtin ''constructor'']"
    by (simp add: constructor_quote_def sample_quote_def)
  have f: "map step_type (q_route constructor_quote) = [Swap, Bridge, Anchor]"
    "q_totalFees constructor_quote = Finite (4053239664633447 / 4503599627370496)"
    using quote_route_shape [OF constructor_quote_eval] by blast+
  show ?thesis
    using constructor_quote_eval sample_requests(12) f r t by simp
qed




text \<open>
  The rounding is that of the double, not of the exact product: for 10 USDC the exact
  product \<open>10 * 56.5 * 0.991 = 559.915\<close> would round to \<open>559.92\<close>, the double nearest to
  it lies just below, and the quote says \<open>559.91\<close>.
\<close>

lemma ten_usdc_amount:
  "map_sum id q_toAmount (getQuote sample_lib ten_usdc_answer sample_request) = Inr ''559.91''"
  "toFixed2 sample_lib (Finite (10 * (113 / 2) * (991 / 1000))) = ''559.92''"
  by (simp_all add: ten_usdc_quote_eval eval_fixed)

text \<open>
  For an amount of \<open>2^64\<close> units the three roundings add up to eleven hundredths: the
  doubles give \<open>1032860870803108.25\<close>, the exact product is \<open>1032860870803108.36\<close> to
  two places.
\<close>

lemma large_amount_rounding:
  "toFixed2 sample_lib
     (fmul (fmul (parseFloat_units6 (2 ^ 64)) (getExchangeRate ''USD'' ''PHP''))
        (Finite (8926134461448323 / 9007199254740992))) = ''1032860870803108.25''"
  "toFixed2 sample_lib (Finite (2 ^ 64 / 10 ^ 6 * (113 / 2) * (991 / 1000))) =
     ''1032860870803108.36''"
  by (simp_all add: parseFloat_units6_def sample_amounts eval_fl eval_fixed)

text \<open>
  A source chain that names an inherited property, lower-cased, passes the settlement
  asset check; the value found has no \<open>address\<close>, the aggregator's address check fails
  in each of its passes, and no quote is returned.
\<close>

lemma inherited_chain_quote:
  "getWrappedStellarUSDC ''Constructor'' = Inherited ''constructor''"
  "getQuote sample_lib quote_answer (sample_request\<lparr>r_fromChain := ''Constructor''\<rparr>) =
     Inl (new_Error ''Network error: Invalid token address'')"
proof -
  show w: "getWrappedStellarUSDC ''Constructor'' = Inherited ''constructor''"
    by (simp add: getWrappedStellarUSDC_def get_property_def WRAPPED_STELLAR_USDC_def
        object_prototype_keys_def toLowerCase_def to_lower_char_def)
  have "\<not> isValidAddress (token_address (Inherited ''constructor''))"
    by (simp add: token_address_def isValidAddress_def)
  then have "run_result (oneInch_getQuote
      (aggregator_request (sample_request\<lparr>r_fromChain := ''Constructor''\<rparr>)
         (Inherited ''constructor'')) quote_answer) =
      Inl (new_Error ''Network error: Invalid token address'')"
    by (subst invalid_address_is_retried) (simp_all add: aggregator_request_def)
  then show "getQuote sample_lib quote_answer (sample_request\<lparr>r_fromChain := ''Constructor''\<rparr>) =
     Inl (new_Error ''Network error: Invalid token address'')"
    by (simp add: getQuote_def w sample_anchor sample_request_def Let_def)
qed



section \<open>Effects of the engine steps on the state\<close>

lemma log_call_fields [simp]:
  "orders (log_call c s) = orders s"
  "calls (log_call c s) = calls s @ [c]"
  "resolverKey (log_call c s) = resolverKey s"
  "sep6Tokens (log_call c s) = sep6Tokens s"
  "integrationTokens (log_call c s) = integrationTokens s"
  by (simp_all add: log_call_def)

lemma set_token_fields [simp]:
  "orders (set_token svc code tok s) = orders s"
  "calls (set_token svc code tok s) = calls s"
  by (simp_all add: set_token_def split: sep6_instance.splits)

lemma modify_order_fields [simp]:
  "calls (modify_order oid f s) = calls s"
  "resolverKey (modify_order oid f s) = resolverKey s"
  "orders (modify_order oid f s) oid' =
     (if oid' = oid then map_option f (orders s oid) else orders s oid')"
  by (simp_all add: modify_order_def split: option.splits)

lemma updateStatus_orders [simp]:
  "orders (updateStatus oid st f s) oid' =
     (if oid' = oid then map_option (\<lambda>ord. f (ord\<lparr>o_status := st\<rparr>)) (orders s oid)
      else orders s oid')"
  "resolverKey (updateStatus oid st f s) = resolverKey s"
  by (simp_all add: updateStatus_def split: option.splits)

lemma save_fields [simp]:
  "orders (save ord s) = (orders s)(o_id ord \<mapsto> ord)"
  "calls (save ord s) = calls s"
  "resolverKey (save ord s) = resolverKey s"
  by (simp_all add: save_def Let_def)

lemma recordOrder_fields [simp]:
  "orders (recordOrder oid s) = orders s"
  "calls (recordOrder oid s) = calls s"
  by (simp_all add: recordOrder_def)

lemma begin_order_fields:
  "orders (begin_order env quote sender rd s) (env_orderId env) =
     Some ((new_order env quote sender rd)\<lparr>o_status := Processing\<rparr>)"
  "calls (begin_order env quote sender rd s) = calls s"
  "resolverKey (begin_order env quote sender rd s) = resolverKey s"
  by (simp_all add: begin_order_def Let_def new_order_def)

lemma scheduleRetry_orders:
  "orders (scheduleRetry oid d s) oid' =
     (if oid' = oid \<and> maxAttempts (getRetryPolicy (d_type d)) \<le> attempts_of s oid
      then map_option (\<lambda>ord. ord\<lparr>o_status := Failed\<rparr>) (orders s oid) else orders s oid')"
  "calls (scheduleRetry oid d s) = calls s"
  by (simp_all add: scheduleRetry_def handleMaxRetriesExceeded_def Let_def)

lemma handleNonRetryableError_orders:
  "orders (handleNonRetryableError oid d s) oid' =
     (if oid' = oid then map_option (\<lambda>ord. ord\<lparr>o_status := Failed\<rparr>) (orders s oid) else orders s oid')"
  "calls (handleNonRetryableError oid d s) = calls s"
  by (simp_all add: handleNonRetryableError_def Let_def)

lemma handleDeliveryError_effect:
  "fst (handleDeliveryError oid e s) = classifyError e"
  "orders (snd (handleDeliveryError oid e s)) oid' =
     (if oid' = oid then map_option (\<lambda>ord. ord\<lparr>o_status := Failed\<rparr>) (orders s oid) else orders s oid')"
  "calls (snd (handleDeliveryError oid e s)) = calls s"
  by (simp_all add: handleDeliveryError_def Let_def scheduleRetry_orders
      handleNonRetryableError_orders option.map_comp comp_def)



lemma throw_return [simp]:
  "fst (throw e s) = Inl e" "snd (throw e s) = s"
  "fst (return_value x s) = Inr x" "snd (return_value x s) = s"
  by (simp_all add: throw_def return_value_def)

lemma then_do_inv:
  assumes "Q (snd r)" and "\<And>x s'. Q s' \<Longrightarrow> Q (snd (f x s'))"
  shows "Q (snd (then_do r f))"
  using assms by (cases r; cases "fst r") (auto simp add: then_do_def)

lemma then_do_Inl: "fst r = Inl e \<Longrightarrow> then_do r f = (Inl e, snd r)"
  by (cases r) (simp add: then_do_def)

lemma then_do_Inr: "fst r = Inr x \<Longrightarrow> then_do r f = f x (snd r)"
  by (cases r) (simp add: then_do_def)

lemma buildSwapTx_effect:
  "orders (snd (buildSwapTx env s)) = orders s"
  "calls (snd (buildSwapTx env s)) = calls s @ [SwapBuildCall]"
  "resolverKey (snd (buildSwapTx env s)) = resolverKey s"
  "fst (buildSwapTx env s) =
     (case env_swap env of Inl e \<Rightarrow> Inl (new_Error ''Failed to build swap transaction'')
      | Inr tx \<Rightarrow> Inr ())"
  by (simp_all add: buildSwapTx_def Let_def split: sum.splits)

lemma bridgeToStellar_effect:
  "orders (snd (bridgeToStellar env s)) = orders s"
  "calls (snd (bridgeToStellar env s)) =
     (if resolverKey s = None then calls s else calls s @ [BridgeCall])"
  by (simp_all add: bridgeToStellar_def Let_def split: option.splits sum.splits)

lemma recommendProtocol_effect:
  "orders (snd (recommendProtocol env code asset s)) = orders s"
  "calls (snd (recommendProtocol env code asset s)) =
     (if code \<in> set anchorEndpoints then calls s @ [Sep6InfoCall code, Sep24InfoCall code]
      else calls s)"
  "fst (recommendProtocol env code asset s) = fst (recommendProtocol env code asset s')"
  by (simp_all add: recommendProtocol_def Let_def)

lemma authenticate_orders: "orders (snd (authenticate svc env code s)) = orders s"
  by (simp add: authenticate_def Let_def split: sum.splits)

lemma withdraw_orders: "orders (snd (withdraw svc env params s)) = orders s"
  by (simp add: withdraw_def Let_def split: sum.splits)

lemma initiateWithdraw_orders: "orders (snd (initiateWithdraw env code s)) = orders s"
  by (simp add: initiateWithdraw_def Let_def split: sum.splits)

lemma read_id_orders: "orders (snd (read_id body s)) = orders s"
  by (simp add: read_id_def split: response_body.splits)

lemma integration_orders:
  "orders (snd (clickPhilippinesIntegration env dm s)) = orders s"
  "orders (snd (cowrieNigeriaIntegration env dm s)) = orders s"
proof -
  show "orders (snd (clickPhilippinesIntegration env dm s)) = orders s"
    unfolding clickPhilippinesIntegration_def
    by (rule then_do_inv [where Q = "\<lambda>s'. orders s' = orders s"])
       (simp_all add: authenticate_orders withdraw_orders)
  show "orders (snd (cowrieNigeriaIntegration env dm s)) = orders s"
    by (simp add: cowrieNigeriaIntegration_def withdraw_orders)
qed

lemma processSEP6Withdrawal_orders:
  "orders (snd (processSEP6Withdrawal env code quote rd s)) = orders s"
proof -
  have g: "orders (snd (then_do (authenticate EngineSep6 env code s) (\<lambda>token. withdraw EngineSep6 env p))) = orders s" for p
    by (rule then_do_inv [where Q = "\<lambda>s'. orders s' = orders s"])
       (simp_all add: authenticate_orders withdraw_orders)
  show ?thesis
    by (simp add: processSEP6Withdrawal_def Let_def integration_orders g split: option.splits)
qed

lemma processSEP24Withdrawal_orders:
  "orders (snd (processSEP24Withdrawal env code s)) = orders s"
  by (simp add: processSEP24Withdrawal_def initiateWithdraw_orders)

lemma withdrawal_stage_orders:
  "orders (snd (withdrawal_stage env quote rd s)) = orders s"
proof (cases "getAnchorForCorridor ''US'' (q_toCountry quote) (q_toCurrency quote)")
  case None
  then show ?thesis by (simp add: withdrawal_stage_def)
next
  case (Some a)
  let ?chosen = "recommendProtocol env (a_code a) (q_toCurrency quote) s"
  have "orders (snd (then_do
         (if fst ?chosen = Sep6
          then processSEP6Withdrawal env (a_code a) quote rd (snd ?chosen)
          else processSEP24Withdrawal env (a_code a) (snd ?chosen))
         read_id)) = orders s"
    by (rule then_do_inv [where Q = "\<lambda>s'. orders s' = orders s"])
       (simp_all add: processSEP6Withdrawal_orders processSEP24Withdrawal_orders
          recommendProtocol_effect read_id_orders)
  then show ?thesis
    unfolding withdrawal_stage_def Some option.case Let_def .
qed

lemma pipeline_keeps_order:
  assumes "orders s oid \<noteq> None"
  shows "orders (snd (run_pipeline env quote sender rd s)) oid \<noteq> None"
proof (cases "getWrappedStellarUSDC (q_fromChain quote) = Undefined")
  case True
  then show ?thesis using assms by (simp add: run_pipeline_def)
next
  case False
  let ?Q = "\<lambda>s'. orders s' oid \<noteq> None"
  have stage: "?Q (snd (withdrawal_stage env quote rd (modify_order (env_orderId env) g s2)))"
    if "?Q s2" for s2 g
    using that by (auto simp add: withdrawal_stage_orders)
  show ?thesis
    unfolding run_pipeline_def if_not_P [OF False]
    by (intro then_do_inv [where Q = ?Q] stage)
       (simp_all add: assms buildSwapTx_effect bridgeToStellar_effect)
qed



section \<open>Properties of order execution\<close>

lemma messages_nonempty: "messages t \<noteq> []"
  by (cases t) (simp_all add: messages_def)

lemma getUserFriendlyMessage_fixed: "getUserFriendlyMessage d = messages (d_type d)"
  by (simp add: getUserFriendlyMessage_def messages_nonempty)

lemma pipeline_order_present:
  "orders (snd (run_pipeline env quote sender rd (begin_order env quote sender rd s)))
     (env_orderId env) \<noteq> None"
  by (rule pipeline_keeps_order) (simp add: begin_order_fields)

lemma executeRemittance_failure:
  assumes "fst (run_pipeline env quote sender rd (begin_order env quote sender rd s)) = Inl raw"
  shows "fst (executeRemittance env quote sender rd s) =
           Inl (new_Error (messages (d_type (classifyError raw))))"
    and "final_status (executeRemittance env quote sender rd s) (env_orderId env) = Some Failed"
proof -
  let ?r = "run_pipeline env quote sender rd (begin_order env quote sender rd s)"
  obtain s4 where r: "?r = (Inl raw, s4)" using assms by (cases ?r) simp
  from pipeline_order_present [of env quote sender rd s] r
  obtain ord where o: "orders s4 (env_orderId env) = Some ord" by auto
  show "fst (executeRemittance env quote sender rd s) =
           Inl (new_Error (messages (d_type (classifyError raw))))"
    by (simp add: executeRemittance_def Let_def r handleDeliveryError_effect
        getUserFriendlyMessage_fixed)
  show "final_status (executeRemittance env quote sender rd s) (env_orderId env) = Some Failed"
    by (simp add: executeRemittance_def Let_def r final_status_def handleDeliveryError_effect o)
qed

lemma executeRemittance_success:
  assumes "fst (run_pipeline env quote sender rd (begin_order env quote sender rd s)) = Inr txid"
  shows "\<exists>ord. fst (executeRemittance env quote sender rd s) = Inr ord \<and>
           orders (snd (executeRemittance env quote sender rd s)) (env_orderId env) = Some ord \<and>
           o_status ord = Completed \<and> o_anchorTxId ord = txid"
proof -
  let ?r = "run_pipeline env quote sender rd (begin_order env quote sender rd s)"
  obtain s4 where r: "?r = (Inr txid, s4)" using assms by (cases ?r) simp
  from pipeline_order_present [of env quote sender rd s] r
  obtain ord where o: "orders s4 (env_orderId env) = Some ord" by auto
  show ?thesis
    by (simp add: executeRemittance_def Let_def r o)
qed

text \<open>
  Claim C1.  When \<open>executeRemittance\<close> is over, the order it created is in a terminal
  status: \<open>Completed\<close> when the call returns the order, \<open>Failed\<close> when it throws; it
  is never left \<open>Pending\<close> or \<open>Processing\<close>.  The order returned is the one stored
  under the generated id.
\<close>

theorem order_status_terminal:
  "final_status (executeRemittance env quote sender rd s) (env_orderId env) =
     Some (case fst (executeRemittance env quote sender rd s) of
             Inl e \<Rightarrow> Failed | Inr ord \<Rightarrow> Completed) \<and>
   final_status (executeRemittance env quote sender rd s) (env_orderId env) \<noteq> Some Pending \<and>
   final_status (executeRemittance env quote sender rd s) (env_orderId env) \<noteq> Some Processing \<and>
   (\<forall>ord. fst (executeRemittance env quote sender rd s) = Inr ord \<longrightarrow>
      orders (snd (executeRemittance env quote sender rd s)) (env_orderId env) = Some ord \<and>
      o_status ord = Completed)"
proof (cases "fst (run_pipeline env quote sender rd (begin_order env quote sender rd s))")
  case (Inl raw)
  from executeRemittance_failure [OF Inl] show ?thesis by simp
next
  case (Inr txid)
  from executeRemittance_success [OF Inr] show ?thesis
    by (auto simp add: final_status_def)
qed







lemma handleDeliveryError_key:
  "resolverKey (snd (handleDeliveryError oid e s)) = resolverKey s"
  by (simp add: handleDeliveryError_def scheduleRetry_def handleNonRetryableError_def
      handleMaxRetriesExceeded_def updateStatus_def emit_def Let_def split: option.splits)

text \<open>
  The engine never gives its bridge a resolver key: an execution that starts without
  one ends without one, so that every execution on an engine as constructed stops at the
  bridge step at the latest.
\<close>

lemma resolver_key_stays_unset:
  assumes "resolverKey s = None"
  shows "resolverKey (snd (executeRemittance env quote sender rd s)) = None"
    and "\<exists>raw. fst (run_pipeline env quote sender rd (begin_order env quote sender rd s)) = Inl raw"
proof -
  let ?s0 = "begin_order env quote sender rd s"
  have "\<exists>raw s1. run_pipeline env quote sender rd ?s0 = (Inl raw, s1) \<and> resolverKey s1 = None"
  proof (cases "getWrappedStellarUSDC (q_fromChain quote) = Undefined")
    case True
    then show ?thesis
      by (simp add: run_pipeline_def throw_def begin_order_fields assms)
  next
    case False
    show ?thesis
    proof (cases "env_swap env")
      case (Inl e)
      then show ?thesis
        using False
        by (simp add: run_pipeline_def buildSwapTx_def then_do_def throw_def Let_def
            begin_order_fields assms log_call_def)
    next
      case (Inr u)
      then show ?thesis
        using False
        by (simp add: run_pipeline_def buildSwapTx_def bridgeToStellar_def then_do_def
            throw_def return_value_def begin_order_fields assms log_call_def Let_def)
    qed
  qed
  then obtain raw s1 where r: "run_pipeline env quote sender rd ?s0 = (Inl raw, s1)"
    and k: "resolverKey s1 = None"
    by blast
  show "resolverKey (snd (executeRemittance env quote sender rd s)) = None"
    by (simp add: executeRemittance_def Let_def r modify_order_def handleDeliveryError_key k
        split: option.splits)
  show "\<exists>raw. fst (run_pipeline env quote sender rd ?s0) = Inl raw"
    by (simp add: r)
qed




section \<open>Sample executions\<close>

lemmas engine_defs =
  run_pipeline_def withdrawal_stage_def begin_order_def new_order_def buildSwapTx_def
  bridgeToStellar_def recommendProtocol_def selectedMethod_def processSEP6Withdrawal_def
  processSEP24Withdrawal_def
  initiateWithdraw_def authenticate_def withdraw_def clickPhilippinesIntegration_def
  cowrieNigeriaIntegration_def read_id_def then_do_def throw_def return_value_def
  getAvailableDeliveryMethods_def deliveryMethods_def anchorEndpoints_def
  getAnchorForCorridor_def corridorMap_def anchors_def anchorList_def truthy_def
  getWrappedStellarUSDC_def get_property_def WRAPPED_STELLAR_USDC_def toLowerCase_def
  to_lower_char_def
  failure_text_def response_field_def tokens_of_def set_token_def
  save_def modify_order_def updateStatus_def log_call_def Let_def

lemmas sample_defs =
  reply_ok_def reply_sep6_def reply_insufficient_def insufficient_error_def ready_state_def
  initial_state_def sample_quote_def ph_quote_def recipient_gcash_def recipient_teleport_def

lemma run_ok:
  "fst (run_pipeline reply_ok sample_quote ''0xSender'' recipient_gcash
        (begin_order reply_ok sample_quote ''0xSender'' recipient_gcash ready_state)) =
     Inr (Some ''I-1'')"
  by (simp add: engine_defs sample_defs)

lemma run_no_key:
  "fst (run_pipeline reply_ok sample_quote ''0xSender'' recipient_gcash
        (begin_order reply_ok sample_quote ''0xSender'' recipient_gcash initial_state)) =
     Inl (new_Error ''Resolver key not set'')"
  by (simp add: engine_defs sample_defs)




lemma run_ok_order:
  "orders (snd (executeRemittance reply_ok sample_quote ''0xSender'' recipient_gcash ready_state))
     ''RMT-1'' = Some completed_order"
  by (simp add: executeRemittance_def recordOrder_def engine_defs sample_defs completed_order_def)

theorem order_status_terminal_witness:
  "fst (executeRemittance reply_ok sample_quote ''0xSender'' recipient_gcash ready_state) =
     Inr completed_order \<and>
   orders (snd (executeRemittance reply_ok sample_quote ''0xSender'' recipient_gcash ready_state))
     ''RMT-1'' = Some completed_order \<and>
   o_status completed_order = Completed \<and>
   final_status (executeRemittance reply_ok sample_quote ''0xSender'' recipient_gcash ready_state)
     ''RMT-1'' = Some Completed \<and>
   final_status (executeRemittance reply_ok sample_quote ''0xSender'' recipient_gcash initial_state)
     ''RMT-1'' = Some Failed"
proof -
  have i: "env_orderId reply_ok = ''RMT-1''" by (simp add: reply_ok_def)
  from executeRemittance_success [OF run_ok] run_ok_order i
  have a: "fst (executeRemittance reply_ok sample_quote ''0xSender'' recipient_gcash ready_state) =
     Inr completed_order"
    by auto
  from executeRemittance_failure(1) [OF run_no_key]
  have b: "fst (executeRemittance reply_ok sample_quote ''0xSender'' recipient_gcash initial_state) =
     Inl (new_Error (messages (d_type (classifyError (new_Error ''Resolver key not set'')))))" .
  note t1 = order_status_terminal [of reply_ok sample_quote "''0xSender''" recipient_gcash ready_state]
  note t2 = order_status_terminal [of reply_ok sample_quote "''0xSender''" recipient_gcash initial_state]
  show ?thesis
    using t1 t2 a b i run_ok_order by (simp add: completed_order_def)
qed










end
